theory Spec2Isabelle
  imports Main
begin

section \<open>JavaScript values\<close>

text \<open>
  The service is written in JavaScript; its requests carry JSON values and its records
  carry a numeric id. A JavaScript number is an IEEE-754 double. The model tracks the
  doubles this service computes with: the integers of magnitude at most \<open>2 ^ 53\<close>
  (on which double arithmetic and the decimal text are exact) and the three values that
  are not finite. The double \<open>-0\<close> is \<open>Fin 0\<close>.

  \<open>Dbl s\<close> is any other double (a fraction, a larger integer), given by the text that
  JavaScript prints for it, such as \<open>1.5\<close> or \<open>1e+21\<close>: the model knows its text, which
  tells it from every other number, and does not compute with it. It is never zero.

  \<open>Other\<close> is a number that the model does not determine: the result of arithmetic or
  of a conversion that the model does not carry out. It occurs in no Store and in no
  request that a handler is given; a handler whose result depends on it has no result in
  the model (\<open>None\<close>).
\<close>

datatype jsnum = Fin int | NaN | PosInf | NegInf | Dbl string | Other

definition tracked :: "jsnum \<Rightarrow> bool" where
  "tracked n =
     (case n of
        Fin k \<Rightarrow> - (2 ^ 53) \<le> k \<and> k \<le> 2 ^ 53
      | Dbl s \<Rightarrow> False
      | Other \<Rightarrow> False
      | _ \<Rightarrow> True)"

text \<open>
  What a handler can throw: a \<open>TypeError\<close> of the language (a property read on
  \<open>undefined\<close>, an object that cannot be converted to a text), the text
  \<open>'Body was not sent!'\<close> (\<open>MissingInput\<close>) and the text \<open>'ID was not found!'\<close>
  (\<open>RecordNotFound\<close>).
\<close>

datatype error = TypeError | MissingInput | RecordNotFound

datatype jsval =
    JUndefined
  | JNull
  | JBool bool
  | JNum jsnum
  | JStr string
  | JArr "jsval list"
  | JObj "(string \<times> jsval) list"

text \<open>
  Truthiness, as \<open>!x\<close>, \<open>x || y\<close> and \<open>if (x)\<close> test it. The handlers test values of
  the request only, where \<open>Other\<close> does not occur.
\<close>

fun truthy :: "jsval \<Rightarrow> bool" where
  "truthy JUndefined = False"
| "truthy JNull = False"
| "truthy (JBool b) = b"
| "truthy (JNum n) = (n \<noteq> Fin 0 \<and> n \<noteq> NaN)"
| "truthy (JStr s) = (s \<noteq> [])"
| "truthy (JArr xs) = True"
| "truthy (JObj kvs) = True"

definition js_or :: "jsval \<Rightarrow> jsval \<Rightarrow> jsval" where
  \<comment> \<open>\<open>a || b\<close>\<close>
  "js_or a b = (if truthy a then a else b)"

subsection \<open>Numbers to text\<close>

definition digit_char :: "nat \<Rightarrow> char" where
  "digit_char d = char_of (48 + d)"

fun dec :: "nat \<Rightarrow> string" where
  "dec n = (if n < 10 then [digit_char n] else dec (n div 10) @ [digit_char (n mod 10)])"

declare dec.simps [simp del]

definition js_toString :: "jsnum \<Rightarrow> string option" where
  \<comment> \<open>\<open>Number.prototype.toString()\<close>; \<open>None\<close> where the model does not determine the text\<close>
  "js_toString n =
     (case n of
        Fin k \<Rightarrow>
          if tracked (Fin k)
          then Some (if k < 0 then CHR ''-'' # dec (nat (- k)) else dec (nat k))
          else None
      | NaN \<Rightarrow> Some ''NaN''
      | PosInf \<Rightarrow> Some ''Infinity''
      | NegInf \<Rightarrow> Some ''-Infinity''
      | Dbl s \<Rightarrow> Some s
      | Other \<Rightarrow> None)"

fun join_comma :: "string list \<Rightarrow> string" where
  "join_comma [] = []"
| "join_comma [s] = s"
| "join_comma (s # t # ss) = s @ CHR '','' # join_comma (t # ss)"

fun all_some :: "'a option list \<Rightarrow> 'a list option" where
  "all_some [] = Some []"
| "all_some (None # xs) = None"
| "all_some (Some x # xs) = map_option ((#) x) (all_some xs)"

fun collect :: "(error + 'a) list \<Rightarrow> error + 'a list" where
  \<comment> \<open>the results of conversions made one after the other: the first error is thrown\<close>
  "collect [] = Inr []"
| "collect (Inl e # rs) = Inl e"
| "collect (Inr t # rs) = (case collect rs of Inl e \<Rightarrow> Inl e | Inr ts \<Rightarrow> Inr (t # ts))"

text \<open>
  The abstract operation ToString; \<open>Inr None\<close> where the model does not determine the
  text. An object parsed from JSON is converted by the \<open>toString\<close> it inherits, which
  prints \<open>[object Object]\<close>, unless it has a property \<open>toString\<close> of its own: that
  property is not a function, the inherited \<open>valueOf\<close> returns the object itself, and
  the conversion throws a \<open>TypeError\<close>. An array prints its elements joined by commas,
  with \<open>undefined\<close> and \<open>null\<close> printed as the empty text.
\<close>

fun ToString :: "jsval \<Rightarrow> error + string option" where
  "ToString JUndefined = Inr (Some ''undefined'')"
| "ToString JNull = Inr (Some ''null'')"
| "ToString (JBool b) = Inr (Some (if b then ''true'' else ''false''))"
| "ToString (JNum n) = Inr (js_toString n)"
| "ToString (JStr s) = Inr (Some s)"
| "ToString (JArr xs) =
     (case collect
             (map (\<lambda>v. if v = JUndefined \<or> v = JNull then Inr (Some []) else ToString v) xs) of
        Inl e \<Rightarrow> Inl e
      | Inr ts \<Rightarrow> Inr (map_option join_comma (all_some ts)))"
| "ToString (JObj kvs) =
     (if ''toString'' \<in> set (map fst kvs) then Inl TypeError
      else Inr (Some ''[object Object]''))"

subsection \<open>Text to numbers\<close>

definition is_ws :: "char \<Rightarrow> bool" where
  \<comment> \<open>white space and line terminators among the characters below 256\<close>
  "is_ws c = ((of_char c :: nat) \<in> set [9, 10, 11, 12, 13, 32, 160])"

definition is_digit :: "char \<Rightarrow> bool" where
  "is_digit c = (48 \<le> (of_char c :: nat) \<and> (of_char c :: nat) \<le> 57)"

definition digit_val :: "char \<Rightarrow> nat" where
  "digit_val c = of_char c - 48"

definition dec_val :: "string \<Rightarrow> nat" where
  "dec_val ds = foldl (\<lambda>a c. 10 * a + digit_val c) 0 ds"

definition fin_or_other :: "int \<Rightarrow> jsnum" where
  "fin_or_other k = (if tracked (Fin k) then Fin k else Other)"

definition js_neg :: "jsnum \<Rightarrow> jsnum" where
  "js_neg n = (case n of Fin k \<Rightarrow> Fin (- k) | PosInf \<Rightarrow> NegInf | NegInf \<Rightarrow> PosInf | _ \<Rightarrow> n)"

definition has_exponent :: "string \<Rightarrow> bool" where
  \<comment> \<open>the text starts with an exponent part: \<open>e\<close> or \<open>E\<close>, an optional sign, a digit\<close>
  "has_exponent r =
     (case r of
        [] \<Rightarrow> False
      | c # r1 \<Rightarrow>
          (c = CHR ''e'' \<or> c = CHR ''E'') \<and>
          (case r1 of
             [] \<Rightarrow> False
           | d # r2 \<Rightarrow>
               is_digit d \<or>
               ((d = CHR ''+'' \<or> d = CHR ''-'') \<and> (case r2 of [] \<Rightarrow> False | x # _ \<Rightarrow> is_digit x))))"

definition unsigned_literal :: "string \<Rightarrow> jsnum option" where
  \<comment> \<open>the longest prefix that is an unsigned decimal literal; \<open>None\<close> when there is none.
      A literal with a fraction or an exponent is not evaluated: \<open>Other\<close>.\<close>
  "unsigned_literal s =
     (if take 8 s = ''Infinity'' then Some PosInf
      else
        let ds = takeWhile is_digit s; r = dropWhile is_digit s in
        if ds = [] then
          (case r of
             c # d # _ \<Rightarrow> if c = CHR ''.'' \<and> is_digit d then Some Other else None
           | _ \<Rightarrow> None)
        else if (case r of [] \<Rightarrow> False | c # _ \<Rightarrow> c = CHR ''.'') \<or> has_exponent r then Some Other
        else Some (fin_or_other (int (dec_val ds))))"

definition parseFloat_str :: "string \<Rightarrow> jsnum" where
  \<comment> \<open>\<open>parseFloat\<close> on a text: leading white space is skipped, the longest numeric prefix
      is read, what follows it is ignored, and a text with no numeric prefix is \<open>NaN\<close>\<close>
  "parseFloat_str s =
     (case dropWhile is_ws s of
        [] \<Rightarrow> NaN
      | c # r \<Rightarrow>
          (case (if c = CHR ''-'' then map_option js_neg (unsigned_literal r)
                 else if c = CHR ''+'' then unsigned_literal r
                 else unsigned_literal (c # r)) of
             None \<Rightarrow> NaN
           | Some n \<Rightarrow> n))"

definition parseFloat :: "jsval \<Rightarrow> error + jsnum" where
  \<comment> \<open>\<open>parseFloat(v)\<close>: the argument is converted to text first, which can throw\<close>
  "parseFloat v =
     (case ToString v of
        Inl e \<Rightarrow> Inl e
      | Inr None \<Rightarrow> Inr Other
      | Inr (Some s) \<Rightarrow> Inr (parseFloat_str s))"

subsection \<open>Arithmetic on ids\<close>

definition js_max2 :: "jsnum \<Rightarrow> jsnum \<Rightarrow> jsnum" where
  "js_max2 a b =
     (if a = NaN \<or> b = NaN then NaN
      else if a = Other \<or> b = Other then Other
      else if a = PosInf \<or> b = PosInf then PosInf
      else if a = NegInf then b
      else if b = NegInf then a
      else (case (a, b) of (Fin x, Fin y) \<Rightarrow> Fin (max x y) | _ \<Rightarrow> Other))"

fun Math_max :: "jsnum list \<Rightarrow> jsnum" where
  \<comment> \<open>\<open>Math.max(...xs)\<close>: \<open>-Infinity\<close> with no argument, \<open>NaN\<close> when an argument is\<close>
  "Math_max [] = NegInf"
| "Math_max (x # xs) = js_max2 x (Math_max xs)"

definition js_add1 :: "jsnum \<Rightarrow> jsnum" where
  \<comment> \<open>\<open>n + 1\<close> in double arithmetic: exact up to \<open>2 ^ 53\<close>, and \<open>2 ^ 53 + 1\<close> rounds
      back to \<open>2 ^ 53\<close> (ties to even)\<close>
  "js_add1 n =
     (case n of
        Fin k \<Rightarrow> if \<not> tracked (Fin k) then Other else if k = 2 ^ 53 then Fin k else Fin (k + 1)
      | Dbl s \<Rightarrow> Other
      | _ \<Rightarrow> n)"

subsection \<open>Text to an integer position\<close>

definition ToNumber_str :: "string \<Rightarrow> jsnum" where
  \<comment> \<open>ToNumber on a text: white space is trimmed at both ends, the empty text is 0, and
      the whole text must be a numeric literal. Only a signed run of digits and a signed
      \<open>Infinity\<close> are evaluated; a text with no digit is otherwise \<open>NaN\<close>, and any other
      text with a digit is not determined.\<close>
  "ToNumber_str s =
     (let t = rev (dropWhile is_ws (rev (dropWhile is_ws s)));
          neg = (case t of [] \<Rightarrow> False | c # _ \<Rightarrow> c = CHR ''-'');
          u = (case t of [] \<Rightarrow> [] | c # r \<Rightarrow> if c = CHR ''-'' \<or> c = CHR ''+'' then r else t);
          sgn = (\<lambda>n. if neg then js_neg n else n)
      in if t = [] then Fin 0
         else if u = ''Infinity'' then sgn PosInf
         else if u \<noteq> [] \<and> list_all is_digit u then sgn (fin_or_other (int (dec_val u)))
         else if list_ex is_digit t then Other
         else NaN)"

definition ToNumber :: "jsval \<Rightarrow> error + jsnum" where
  \<comment> \<open>an object or an array is converted to its text first, which can throw\<close>
  "ToNumber v =
     (case v of
        JUndefined \<Rightarrow> Inr NaN
      | JNull \<Rightarrow> Inr (Fin 0)
      | JBool b \<Rightarrow> Inr (Fin (if b then 1 else 0))
      | JNum n \<Rightarrow> Inr n
      | _ \<Rightarrow>
          (case ToString v of
             Inl e \<Rightarrow> Inl e
           | Inr None \<Rightarrow> Inr Other
           | Inr (Some s) \<Rightarrow> Inr (ToNumber_str s)))"

section \<open>Arrays\<close>

definition indexOf :: "'a list \<Rightarrow> 'a \<Rightarrow> int" where
  \<comment> \<open>\<open>xs.indexOf(x)\<close>: the first position holding \<open>x\<close>, or -1. The source compares
      objects by identity; the argument is always an element of \<open>xs\<close> taken out by
      \<open>filter\<close>, so the first identical element and the first equal one are both the
      first element that passes the filter.\<close>
  "indexOf xs x = (if x \<in> set xs then int (length (takeWhile (\<lambda>y. y \<noteq> x) xs)) else - 1)"

definition splice :: "'a list \<Rightarrow> int \<Rightarrow> nat \<Rightarrow> 'a list \<Rightarrow> 'a list" where
  \<comment> \<open>\<open>xs.splice(start, deleteCount, ...items)\<close>, the array afterwards: a negative start
      counts from the end, and both arguments are clamped to the array\<close>
  "splice xs start deleteCount items =
     (let len = int (length xs);
          s = nat (if start < 0 then max (len + start) 0 else min start len);
          dc = min deleteCount (length xs - s)
      in take s xs @ items @ drop (s + dc) xs)"

definition slice0 :: "'a list \<Rightarrow> jsnum \<Rightarrow> 'a list option" where
  \<comment> \<open>\<open>xs.slice(0, e)\<close> for \<open>e\<close> already a number; \<open>None\<close> where the model does not
      determine the number\<close>
  "slice0 xs e =
     (case e of
        Fin k \<Rightarrow> Some (take (nat (if k < 0 then max (int (length xs) + k) 0 else k)) xs)
      | NaN \<Rightarrow> Some []
      | PosInf \<Rightarrow> Some xs
      | NegInf \<Rightarrow> Some []
      | Dbl s \<Rightarrow> None
      | Other \<Rightarrow> None)"

section \<open>The data model\<close>

text \<open>
  A customer, as the \<open>Customer\<close> typedef of the factory declares it. The id is a number.
  The other fields are declared as texts and a boolean, but the factory copies whatever
  truthy value the request carries, so they hold any value. The field \<open>id\<close> of the
  source is \<open>cid\<close> here.
\<close>

record customer =
  cid :: jsnum
  name :: jsval
  address :: jsval
  phone :: jsval
  email :: jsval
  lastupdate :: jsval
  country :: jsval
  active :: jsval
  contact :: jsval

text \<open>
  The Store is the array \<open>customerExamples\<close>. Both modules obtain it from the same
  \<open>require\<close> of the seed file, hence share one array, which the handlers mutate in
  place.
\<close>

type_synonym store = "customer list"

text \<open>An object is the map of its own properties; reading a missing one gives \<open>undefined\<close>.\<close>

type_synonym obj = "string \<rightharpoonup> jsval"

definition get_prop :: "obj \<Rightarrow> string \<Rightarrow> jsval" where
  "get_prop ob k = (case ob k of None \<Rightarrow> JUndefined | Some v \<Rightarrow> v)"

text \<open>
  Of a request the handlers read \<open>req.body\<close> and \<open>req.query\<close>; \<open>None\<close> is \<open>undefined\<close>.
  Behind the \<open>express.json()\<close> middleware the payload of a request is an object, empty
  when the request sends none, and the query is an object of texts; the handlers test both
  for presence all the same, and the factory reads properties of both without a test, so
  the model keeps the case that one is missing.
\<close>

record request =
  body :: "obj option"
  query :: "obj option"

datatype source = Body | Query

definition src :: "request \<Rightarrow> source \<Rightarrow> obj option" where
  \<comment> \<open>\<open>req[type]\<close>\<close>
  "src req ty = (case ty of Body \<Rightarrow> body req | Query \<Rightarrow> query req)"

section \<open>The factory\<close>

text \<open>
  \<open>generate(req, keepID)\<close>. It reads the Store and the clock (\<open>now\<close> is the text
  \<open>new Date().toISOString()\<close> gives), writes \<open>req.body.id\<close>, and returns the new
  record. The result is paired with the Store and the request as they are afterwards:
  when \<open>parseFloat\<close> throws, \<open>req.body.id\<close> has been written already.
\<close>

definition generate ::
  "store \<Rightarrow> string \<Rightarrow> request \<Rightarrow> bool \<Rightarrow> (error + customer) \<times> store \<times> request" where
  "generate customerExamples now req keepID =
     (case body req of
        None \<Rightarrow> (Inl TypeError, customerExamples, req)
      | Some b \<Rightarrow>
          (case (if \<not> keepID then Some (JNum (js_add1 (Math_max (map cid customerExamples))))
                 else if truthy (get_prop b ''id'') then Some (get_prop b ''id'')
                 else map_option (\<lambda>q. get_prop q ''id'') (query req)) of
             None \<Rightarrow> (Inl TypeError, customerExamples, req)
           | Some v \<Rightarrow>
               let b' = b(''id'' \<mapsto> v) in
               (case parseFloat (get_prop b' ''id'') of
                  Inl e \<Rightarrow> (Inl e, customerExamples, req\<lparr>body := Some b'\<rparr>)
                | Inr i \<Rightarrow>
               (Inr \<lparr> cid = i,
                      name = js_or (get_prop b' ''name'') (JStr ''No Name''),
                      address = js_or (get_prop b' ''address'') (JStr ''No Address''),
                      phone = js_or (get_prop b' ''phone'') (JStr ''No Phone''),
                      email = js_or (get_prop b' ''email'') (JStr ''No Email''),
                      lastupdate = js_or (get_prop b' ''lastupdate'') (JStr now),
                      country = js_or (get_prop b' ''country'') (JStr ''No Country''),
                      active = js_or (get_prop b' ''active'') (JBool True),
                      contact = js_or (get_prop b' ''contact'') (JStr ''No Contact'') \<rparr>,
                customerExamples,
                req\<lparr>body := Some b'\<rparr>))))"

definition id_matches :: "customer \<Rightarrow> jsval \<Rightarrow> bool option" where
  \<comment> \<open>\<open>f.id.toString() === v\<close>: false when \<open>v\<close> is not a text; not determined when \<open>v\<close> is
      a text and the model has no text for the id\<close>
  "id_matches f v =
     (case v of
        JStr x \<Rightarrow> (case js_toString (cid f) of None \<Rightarrow> None | Some t \<Rightarrow> Some (t = x))
      | _ \<Rightarrow> Some False)"

text \<open>
  \<open>validate(req, type)\<close>: the index of the customer the request names, or -1. The stored
  id is converted to text; the id of the request is compared as it is, with \<open>===\<close>, so
  it matches only when it is a text. The result is \<open>None\<close> when a comparison is not
  determined.
\<close>

definition validate :: "store \<Rightarrow> request \<Rightarrow> source \<Rightarrow> int option" where
  "validate customerExamples req ty =
     (case src req ty of
        None \<Rightarrow> Some (- 1)
      | Some s \<Rightarrow>
          if \<not> truthy (get_prop s ''id'') then Some (- 1)
          else if list_ex (\<lambda>f. id_matches f (get_prop s ''id'') = None) customerExamples then None
          else
            let search = filter (\<lambda>f. id_matches f (get_prop s ''id'') = Some True)
                           customerExamples
            in Some (case search of [] \<Rightarrow> - 1 | x # _ \<Rightarrow> indexOf customerExamples x))"

section \<open>The handlers\<close>

definition strict_eq_num :: "jsnum \<Rightarrow> jsval \<Rightarrow> bool option" where
  \<comment> \<open>\<open>n === v\<close> for a number \<open>n\<close>: \<open>v\<close> must be a number, and \<open>NaN\<close> equals nothing;
      not determined when \<open>v\<close> is a number and one of the two is not determined\<close>
  "strict_eq_num n v =
     (case v of
        JNum m \<Rightarrow>
          if js_toString n = None \<or> js_toString m = None then None
          else Some (n = m \<and> n \<noteq> NaN)
      | _ \<Rightarrow> Some False)"

text \<open>
  \<open>GET /customers\<close>: the list sent back; \<open>None\<close> where the model does not determine a
  comparison or \<open>qty\<close>.
\<close>

definition get_customers :: "store \<Rightarrow> request \<Rightarrow> (error + customer list option) \<times> store" where
  "get_customers customerExamples req =
     (case query req of
        None \<Rightarrow> (Inl TypeError, customerExamples)
      | Some q \<Rightarrow>
          let result = Some customerExamples;
              result =
                (if truthy (get_prop q ''id'')
                 then if list_ex (\<lambda>f. strict_eq_num (cid f) (get_prop q ''id'') = None)
                           customerExamples
                      then None
                      else Some (filter (\<lambda>f. strict_eq_num (cid f) (get_prop q ''id'') = Some True)
                                   customerExamples)
                 else result)
          in if truthy (get_prop q ''qty'')
             then (case ToNumber (get_prop q ''qty'') of
                     Inl e \<Rightarrow> (Inl e, customerExamples)
                   | Inr n \<Rightarrow>
                       (Inr (case result of None \<Rightarrow> None | Some r \<Rightarrow> slice0 r n),
                        customerExamples))
             else (Inr result, customerExamples))"

text \<open>\<open>POST /customers\<close>: the new customer is pushed on the Store and sent back.\<close>

definition post_customers ::
  "store \<Rightarrow> string \<Rightarrow> request \<Rightarrow> (error + customer) \<times> store \<times> request" where
  "post_customers customerExamples now req =
     (case generate customerExamples now req False of
        (Inl e, st, req') \<Rightarrow> (Inl e, st, req')
      | (Inr customerNew, st, req') \<Rightarrow> (Inr customerNew, st @ [customerNew], req'))"

text \<open>
  \<open>changeOrDelete(req, res, update)\<close>, the body of \<open>PUT /customers\<close> (\<open>update\<close> true)
  and of \<open>DELETE /customers\<close> (\<open>update\<close> false). The clock is read twice: \<open>now1\<close> by the
  factory, \<open>now2\<close> for the stamp. The result is \<open>None\<close> when that of \<open>validate\<close> is.
\<close>

definition changeOrDelete ::
  "store \<Rightarrow> string \<Rightarrow> string \<Rightarrow> request \<Rightarrow> bool \<Rightarrow>
     ((error + customer) \<times> store \<times> request) option" where
  "changeOrDelete customerExamples now1 now2 req update =
     (if (update \<and> body req \<noteq> None) \<or> (\<not> update \<and> query req \<noteq> None) then
        (case validate customerExamples req (if update then Body else Query) of
           None \<Rightarrow> None
         | Some v \<Rightarrow>
             if v = - 1 then Some (Inl RecordNotFound, customerExamples, req)
             else
               (case generate customerExamples now1 req True of
                  (Inl e, st, req') \<Rightarrow> Some (Inl e, st, req')
                | (Inr c, st, req') \<Rightarrow>
                    let customerEdit = c\<lparr>lastupdate := JStr now2\<rparr> in
                    Some (Inr customerEdit,
                          (if update then splice st v 1 [customerEdit] else splice st v 1 []),
                          req')))
      else Some (Inl MissingInput, customerExamples, req))"

section \<open>Example data\<close>

text \<open>
  The customer whose fields are all at the factory's defaults, with a given id and a given
  time of last update: what the factory builds from a payload that carries no field.
\<close>

definition defaults :: "jsnum \<Rightarrow> string \<Rightarrow> customer" where
  "defaults i t =
     \<lparr> cid = i, name = JStr ''No Name'', address = JStr ''No Address'',
       phone = JStr ''No Phone'', email = JStr ''No Email'', lastupdate = JStr t,
       country = JStr ''No Country'', active = JBool True, contact = JStr ''No Contact'' \<rparr>"

section \<open>Numbers and their text\<close>

text \<open>
  A tracked number survives the round trip through its text: \<open>parseFloat\<close> applied to
  a number gives the number back.
\<close>

lemma is_digit_digit_char: "d < 10 \<Longrightarrow> is_digit (digit_char d)"
  by (simp add: is_digit_def digit_char_def)

lemma digit_val_digit_char: "d < 10 \<Longrightarrow> digit_val (digit_char d) = d"
  by (simp add: digit_val_def digit_char_def)

lemma dec_all_digits: "list_all is_digit (dec n)"
proof (induction n rule: dec.induct)
  case (1 n)
  show ?case
  proof (cases "n < 10")
    case True
    then show ?thesis by (simp add: dec.simps [of n] is_digit_digit_char)
  next
    case False
    with "1" show ?thesis by (simp add: dec.simps [of n] is_digit_digit_char)
  qed
qed

lemma dec_nonempty: "dec n \<noteq> []"
  by (subst dec.simps) simp

lemma dec_val_snoc: "dec_val (ds @ [c]) = 10 * dec_val ds + digit_val c"
  by (simp add: dec_val_def)

lemma dec_val_dec: "dec_val (dec n) = n"
proof (induction n rule: dec.induct)
  case (1 n)
  show ?case
  proof (cases "n < 10")
    case True
    then show ?thesis by (simp add: dec.simps [of n] dec_val_def digit_val_digit_char)
  next
    case False
    with "1" show ?thesis by (simp add: dec.simps [of n] dec_val_snoc digit_val_digit_char)
  qed
qed

lemma digit_facts:
  assumes "is_digit c"
  shows "\<not> is_ws c" "c \<noteq> CHR ''-''" "c \<noteq> CHR ''+''" "c \<noteq> CHR ''I''"
  using assms by (auto simp: is_digit_def is_ws_def)

lemma unsigned_literal_dec: "unsigned_literal (dec n) = Some (fin_or_other (int n))"
proof -
  obtain c cs where d: "dec n = c # cs"
    using dec_nonempty [of n] by (cases "dec n") auto
  have all: "list_all is_digit (dec n)" by (rule dec_all_digits)
  with d have c: "is_digit c" by simp
  have tw: "takeWhile is_digit (dec n) = dec n" "dropWhile is_digit (dec n) = []"
    using all by (simp_all add: list_all_iff)
  have inf: "take 8 (dec n) \<noteq> ''Infinity''"
    using d digit_facts(4) [OF c] by auto
  show ?thesis
    unfolding unsigned_literal_def Let_def tw using inf dec_nonempty [of n]
    by (simp add: has_exponent_def dec_val_dec)
qed

lemma parseFloat_str_dec: "parseFloat_str (dec n) = fin_or_other (int n)"
proof -
  obtain c cs where d: "dec n = c # cs"
    using dec_nonempty [of n] by (cases "dec n") auto
  have "list_all is_digit (dec n)" by (rule dec_all_digits)
  with d have c: "is_digit c" by simp
  have "unsigned_literal (c # cs) = Some (fin_or_other (int n))"
    using unsigned_literal_dec [of n] d by simp
  then show ?thesis
    unfolding parseFloat_str_def d using digit_facts [OF c] by simp
qed

lemma parseFloat_str_neg_dec:
  "parseFloat_str (CHR ''-'' # dec n) = js_neg (fin_or_other (int n))"
  unfolding parseFloat_str_def by (simp add: is_ws_def unsigned_literal_dec)

lemma parseFloat_tracked: "tracked n \<Longrightarrow> parseFloat (JNum n) = Inr n"
proof (cases n)
  case (Fin k)
  assume t: "tracked n"
  show ?thesis
  proof (cases "k < 0")
    case True
    have "tracked (Fin (int (nat (- k))))" using t Fin True by (simp add: tracked_def)
    then show ?thesis using t Fin True
      by (simp add: parseFloat_def js_toString_def parseFloat_str_neg_dec fin_or_other_def js_neg_def)
  next
    case False
    then show ?thesis using t Fin
      by (simp add: parseFloat_def js_toString_def parseFloat_str_dec fin_or_other_def)
  qed
next
  case NaN
  then show ?thesis
    by (simp add: parseFloat_def js_toString_def parseFloat_str_def is_ws_def unsigned_literal_def is_digit_def)
next
  case PosInf
  then show ?thesis
    by (simp add: parseFloat_def js_toString_def parseFloat_str_def is_ws_def unsigned_literal_def)
next
  case NegInf
  then show ?thesis
    by (simp add: parseFloat_def js_toString_def parseFloat_str_def is_ws_def unsigned_literal_def js_neg_def)
next
  case (Dbl s)
  assume "tracked n"
  with Dbl show ?thesis by (simp add: tracked_def)
next
  case Other
  then show ?thesis by (simp add: parseFloat_def js_toString_def)
qed

lemma parseFloat_text: "parseFloat (JStr x) = Inr (parseFloat_str x)"
  by (simp add: parseFloat_def)

lemma dec_1: "dec (Suc 0) = ''1''"
  by code_simp

lemma js_toString_1: "js_toString (Fin 1) = Some ''1''"
  by (simp add: js_toString_def tracked_def dec_1)

lemma parseFloat_text_1: "parseFloat (JStr ''1'') = Inr (Fin 1)"
  using parseFloat_str_dec [of "Suc 0"]
  by (simp add: parseFloat_def dec_1 fin_or_other_def tracked_def)

lemma parseFloat_text_neginf: "parseFloat (JStr ''-Infinity'') = Inr NegInf"
  using parseFloat_tracked [of NegInf] by (simp add: parseFloat_def js_toString_def tracked_def)


text \<open>
  The tracked numbers have a text and are closed under the arithmetic of the factory.
\<close>

lemma tracked_has_text: "tracked n \<Longrightarrow> js_toString n \<noteq> None"
  by (cases n) (auto simp: js_toString_def tracked_def)

lemma tracked_NegInf: "tracked NegInf"
  by (simp add: tracked_def)

lemma js_max2_tracked: "tracked a \<Longrightarrow> tracked b \<Longrightarrow> tracked (js_max2 a b)"
  by (cases a; cases b) (auto simp: js_max2_def tracked_def max_def)

lemma Math_max_tracked: "\<forall>n\<in>set ns. tracked n \<Longrightarrow> tracked (Math_max ns)"
  by (induction ns) (simp_all add: js_max2_tracked tracked_NegInf)

lemma js_add1_tracked: "tracked n \<Longrightarrow> tracked (js_add1 n)"
  by (cases n) (auto simp: js_add1_def tracked_def)

lemma Math_max_fin:
  assumes "ns \<noteq> []" and "\<forall>n\<in>set ns. \<exists>k. n = Fin k"
  shows "\<exists>m. Math_max ns = Fin m \<and> Fin m \<in> set ns \<and> (\<forall>k. Fin k \<in> set ns \<longrightarrow> k \<le> m)"
  using assms
proof (induction ns)
  case Nil
  then show ?case by simp
next
  case (Cons a ns)
  from Cons.prems obtain k where a: "a = Fin k" by auto
  show ?case
  proof (cases "ns = []")
    case True
    with a show ?thesis by (simp add: js_max2_def)
  next
    case False
    with Cons obtain m where m: "Math_max ns = Fin m" "Fin m \<in> set ns"
      "\<forall>k. Fin k \<in> set ns \<longrightarrow> k \<le> m" by auto
    with a show ?thesis by (auto simp: js_max2_def max_def)
  qed
qed


text \<open>
  A conversion throws nothing but a \<open>TypeError\<close>.
\<close>

lemma collect_Inl: "collect rs = Inl e \<Longrightarrow> Inl e \<in> set rs"
  by (induction rs rule: collect.induct) (auto split: sum.splits)

lemma ToString_error: "ToString v = Inl e \<Longrightarrow> e = TypeError"
proof (induction v arbitrary: e rule: ToString.induct)
  case (6 xs)
  from "6.prems" have
    "collect (map (\<lambda>v. if v = JUndefined \<or> v = JNull then Inr (Some []) else ToString v) xs) = Inl e"
    by (simp split: sum.splits)
  from collect_Inl [OF this] obtain v where
    "v \<in> set xs" "\<not> (v = JUndefined \<or> v = JNull)" "ToString v = Inl e"
    by (auto split: if_splits)
  with "6.IH" show ?case by blast
qed (auto split: if_splits)

lemma parseFloat_error: "parseFloat v = Inl e \<Longrightarrow> e = TypeError"
  by (auto simp: parseFloat_def dest: ToString_error split: sum.splits option.splits)


section \<open>Arrays and the locator\<close>

lemma indexOf_filter_hd:
  "filter P xs = x # ys \<Longrightarrow>
     indexOf xs x = int (length (takeWhile (\<lambda>y. \<not> P y) xs)) \<and>
     length (takeWhile (\<lambda>y. \<not> P y) xs) < length xs \<and>
     xs ! length (takeWhile (\<lambda>y. \<not> P y) xs) = x"
proof (induction xs)
  case Nil
  then show ?case by simp
next
  case (Cons a xs)
  show ?case
  proof (cases "P a")
    case True
    with Cons.prems have "x = a" by simp
    with True show ?thesis by (simp add: indexOf_def)
  next
    case False
    with Cons.prems have f: "filter P xs = x # ys" by simp
    then have "x \<in> set (filter P xs)" by simp
    then have px: "P x" and xin: "x \<in> set xs" by simp_all
    from px False have ne: "a \<noteq> x" by auto
    from Cons.IH [OF f] xin ne False show ?thesis by (simp add: indexOf_def)
  qed
qed

lemma splice_replace:
  assumes "0 \<le> i" and "nat i < length xs"
  shows "splice xs i 1 [c] = xs[nat i := c]"
proof -
  from assms have "i < int (length xs)" by linarith
  with assms show ?thesis
    by (simp add: splice_def Let_def min_def upd_conv_take_nth_drop)
qed

lemma splice_delete:
  assumes "0 \<le> i" and "nat i < length xs"
  shows "splice xs i 1 [] = take (nat i) xs @ drop (Suc (nat i)) xs"
proof -
  from assms have "i < int (length xs)" by linarith
  with assms show ?thesis
    by (simp add: splice_def Let_def min_def)
qed

lemma set_remove_nth:
  assumes "f \<in> set (take i st @ drop (Suc i) st)"
  shows "\<exists>j<length st. j \<noteq> i \<and> f = st ! j"
proof -
  from assms consider "f \<in> set (take i st)" | "f \<in> set (drop (Suc i) st)" by auto
  then show ?thesis
  proof cases
    case 1
    then obtain j where "j < length (take i st)" "take i st ! j = f"
      by (auto simp: in_set_conv_nth)
    then show ?thesis by (intro exI [of _ j]) auto
  next
    case 2
    then obtain j where j: "j < length (drop (Suc i) st)" "drop (Suc i) st ! j = f"
      by (auto simp: in_set_conv_nth)
    then show ?thesis by (intro exI [of _ "Suc i + j"]) auto
  qed
qed


text \<open>
  What \<open>validate\<close> returns. A result other than -1 comes from a request id that is a
  text, and is the position of the first customer whose id prints as that text. The result
  is determined as soon as every stored id has a text, and it is -1 for every request id
  that is not a text.
\<close>

lemma id_matches_text:
  "id_matches f (JStr x) = Some True \<longleftrightarrow> js_toString (cid f) = Some x"
  "id_matches f (JStr x) = None \<longleftrightarrow> js_toString (cid f) = None"
  by (auto simp: id_matches_def split: option.splits)

lemma id_matches_not_text:
  "\<forall>x. v \<noteq> JStr x \<Longrightarrow> id_matches f v = Some False"
  by (cases v) (auto simp: id_matches_def)

lemma id_matches_True:
  "id_matches f v = Some True \<Longrightarrow> \<exists>x. v = JStr x \<and> js_toString (cid f) = Some x"
  by (cases v) (auto simp: id_matches_def split: option.splits)

lemma validate_found:
  assumes "validate st req ty = Some i" and "i \<noteq> - 1"
  shows "\<exists>s x. src req ty = Some s \<and> get_prop s ''id'' = JStr x \<and> x \<noteq> [] \<and>
           (\<forall>f\<in>set st. js_toString (cid f) \<noteq> None) \<and>
           i = int (length (takeWhile (\<lambda>f. js_toString (cid f) \<noteq> Some x) st)) \<and>
           nat i < length st \<and> js_toString (cid (st ! nat i)) = Some x"
proof -
  from assms obtain s where s: "src req ty = Some s"
    by (auto simp: validate_def split: option.splits)
  let ?v = "get_prop s ''id''"
  let ?P = "\<lambda>f. id_matches f ?v = Some True"
  from assms s have t: "truthy ?v"
    by (auto simp: validate_def split: if_splits)
  from assms s t have det: "\<not> list_ex (\<lambda>f. id_matches f ?v = None) st"
    by (auto simp: validate_def split: if_splits)
  from assms s t det obtain f fs where f: "filter ?P st = f # fs" and i: "i = indexOf st f"
    by (auto simp: validate_def Let_def split: list.splits)
  from f have "f \<in> set (filter ?P st)" by simp
  then have "?P f" by simp
  from id_matches_True [OF this] obtain x where
    x: "?v = JStr x" and fx: "js_toString (cid f) = Some x" by blast
  from t x have ne: "x \<noteq> []" by simp
  from det x have all: "\<forall>f\<in>set st. js_toString (cid f) \<noteq> None"
    by (simp add: list_ex_iff id_matches_text)
  have eq: "(\<lambda>y. \<not> ?P y) = (\<lambda>f. js_toString (cid f) \<noteq> Some x)"
    using x by (simp add: fun_eq_iff id_matches_text)
  from indexOf_filter_hd [OF f] i fx show ?thesis
    unfolding eq using s x ne all by auto
qed

lemma validate_text:
  assumes "src req ty = Some s" and "get_prop s ''id'' = JStr x" and "x \<noteq> []"
    and all: "\<forall>f\<in>set st. js_toString (cid f) \<noteq> None"
  shows "validate st req ty =
           Some (if \<exists>f\<in>set st. js_toString (cid f) = Some x
                 then int (length (takeWhile (\<lambda>f. js_toString (cid f) \<noteq> Some x) st))
                 else - 1)"
proof -
  let ?P = "\<lambda>f. id_matches f (JStr x) = Some True"
  have eq: "?P = (\<lambda>f. js_toString (cid f) = Some x)"
    by (simp add: fun_eq_iff id_matches_text)
  have det: "\<not> list_ex (\<lambda>f. id_matches f (JStr x) = None) st"
    using all by (simp add: list_ex_iff id_matches_text)
  show ?thesis
  proof (cases "filter ?P st")
    case Nil
    then have "\<not> (\<exists>f\<in>set st. ?P f)" by (simp add: filter_empty_conv)
    then have "\<not> (\<exists>f\<in>set st. js_toString (cid f) = Some x)" unfolding eq .
    with Nil assms det show ?thesis by (simp add: validate_def)
  next
    case (Cons f fs)
    then have "f \<in> set (filter ?P st)" by simp
    then have "\<exists>f\<in>set st. js_toString (cid f) = Some x" unfolding eq by auto
    moreover have "(\<lambda>y. \<not> ?P y) = (\<lambda>f. js_toString (cid f) \<noteq> Some x)"
      by (simp add: fun_eq_iff id_matches_text)
    ultimately show ?thesis
      using indexOf_filter_hd [OF Cons] Cons assms det by (simp add: validate_def)
  qed
qed

lemma validate_at:
  assumes s: "src req ty = Some s" "get_prop s ''id'' = JStr x" "x \<noteq> []"
    and all: "\<forall>f\<in>set st. js_toString (cid f) \<noteq> None"
    and i: "i < length st" "js_toString (cid (st ! i)) = Some x"
    and first: "\<forall>j<i. js_toString (cid (st ! j)) \<noteq> Some x"
  shows "validate st req ty = Some (int i)"
proof -
  have tw: "takeWhile (\<lambda>f. js_toString (cid f) \<noteq> Some x) st = take i st"
    using first i by (intro takeWhile_eq_take_P_nth) auto
  have ex: "\<exists>f\<in>set st. js_toString (cid f) = Some x"
    using i by (intro bexI [of _ "st ! i"]) auto
  show ?thesis
    using validate_text [OF s all] ex i(1) by (simp add: tw)
qed

lemma validate_none:
  assumes s: "src req ty = Some s" "get_prop s ''id'' = JStr x"
    and all: "\<forall>f\<in>set st. js_toString (cid f) \<noteq> None"
    and none: "\<forall>f\<in>set st. js_toString (cid f) \<noteq> Some x"
  shows "validate st req ty = Some (- 1)"
proof (cases "x = []")
  case True
  with s show ?thesis by (simp add: validate_def)
next
  case False
  from validate_text [OF s False all] none show ?thesis by auto
qed

lemma validate_determined:
  assumes "\<forall>f\<in>set st. js_toString (cid f) \<noteq> None"
  shows "validate st req ty \<noteq> None"
proof -
  have "\<And>v. \<not> list_ex (\<lambda>f. id_matches f v = None) st"
    using assms by (auto simp: list_ex_iff id_matches_def split: jsval.splits option.splits)
  then show ?thesis by (simp add: validate_def Let_def split: option.splits)
qed

lemma validate_not_text:
  assumes "src req ty = Some s" and "\<forall>x. get_prop s ''id'' \<noteq> JStr x"
  shows "validate st req ty = Some (- 1)"
proof -
  have m: "\<And>f. id_matches f (get_prop s ''id'') = Some False"
    using assms(2) by (rule id_matches_not_text)
  show ?thesis using assms(1) by (simp add: validate_def m list_ex_iff)
qed

lemma validate_example:
  "validate [old\<lparr>cid := Fin 1\<rparr>] \<lparr>body = bd, query = Some [''id'' \<mapsto> JStr ''1'']\<rparr> Query = Some 0"
  "validate [old\<lparr>cid := Fin 1\<rparr>] \<lparr>body = Some (bo(''id'' \<mapsto> JStr ''1'')), query = qu\<rparr> Body = Some 0"
  "validate [old\<lparr>cid := Fin 1\<rparr>] \<lparr>body = Some (bo(''id'' \<mapsto> JNum (Fin 1))), query = qu\<rparr> Body
     = Some (- 1)"
  by (simp_all add: validate_def src_def get_prop_def id_matches_def js_toString_1 indexOf_def)


text \<open>
  A stored id that is a fraction is found by its text.
\<close>

lemma validate_fraction_example:
  "validate [defaults (Dbl ''1.5'') ''t0'']
     \<lparr>body = Some Map.empty, query = Some [''id'' \<mapsto> JStr ''1.5'']\<rparr> Query = Some 0"
  by (simp add: validate_def src_def get_prop_def id_matches_def js_toString_def defaults_def
        indexOf_def)


section \<open>Properties of the factory and of the handlers\<close>

lemma get_prop_upd_other: "k \<noteq> k' \<Longrightarrow> get_prop (ob(k' \<mapsto> v)) k = get_prop ob k"
  by (simp add: get_prop_def)

lemma get_prop_upd_same: "get_prop (ob(k \<mapsto> v)) k = v"
  by (simp add: get_prop_def)

lemma generate_Inr:
  assumes "generate st now req keepID = (Inr c, st', req')" and "body req = Some b"
  shows "\<exists>v. parseFloat v = Inr (cid c) \<and>
             name c = js_or (get_prop b ''name'') (JStr ''No Name'') \<and>
             address c = js_or (get_prop b ''address'') (JStr ''No Address'') \<and>
             phone c = js_or (get_prop b ''phone'') (JStr ''No Phone'') \<and>
             email c = js_or (get_prop b ''email'') (JStr ''No Email'') \<and>
             lastupdate c = js_or (get_prop b ''lastupdate'') (JStr now) \<and>
             country c = js_or (get_prop b ''country'') (JStr ''No Country'') \<and>
             active c = js_or (get_prop b ''active'') (JBool True) \<and>
             contact c = js_or (get_prop b ''contact'') (JStr ''No Contact'') \<and>
             st' = st \<and> req' = req\<lparr>body := Some (b(''id'' \<mapsto> v))\<rparr> \<and>
             (if \<not> keepID then v = JNum (js_add1 (Math_max (map cid st)))
              else if truthy (get_prop b ''id'') then v = get_prop b ''id''
              else \<exists>q. query req = Some q \<and> v = get_prop q ''id'')"
  using assms
  by (auto simp: generate_def Let_def get_prop_upd_other get_prop_upd_same
           split: option.splits if_splits sum.splits)

lemma generate_store: "generate st now req keepID = (r, st', req') \<Longrightarrow> st' = st"
  by (auto simp: generate_def Let_def split: option.splits if_splits sum.splits)

lemma generate_error: "generate st now req keepID = (Inl e, st', req') \<Longrightarrow> e = TypeError"
  by (auto simp: generate_def Let_def dest: parseFloat_error
           split: option.splits if_splits sum.splits)

lemma generate_keep_text:
  assumes "body req = Some b" and "\<not> truthy (get_prop b ''id'')"
    and "query req = Some q" and "get_prop q ''id'' = JStr x"
  shows "\<exists>g req'. generate st now req True = (Inr g, st, req')"
  using assms by (simp add: generate_def Let_def get_prop_upd_same parseFloat_text)

lemma generate_blank:
  "generate [] now \<lparr>body = Some Map.empty, query = q\<rparr> False =
     (Inr (defaults NegInf now), [], \<lparr>body = Some [''id'' \<mapsto> JNum NegInf], query = q\<rparr>)"
  by (simp add: generate_def defaults_def get_prop_def js_or_def js_add1_def parseFloat_tracked tracked_def)

lemma post_blank:
  "post_customers [] now \<lparr>body = Some Map.empty, query = q\<rparr> =
     (Inr (defaults NegInf now), [defaults NegInf now],
      \<lparr>body = Some [''id'' \<mapsto> JNum NegInf], query = q\<rparr>)"
  by (simp add: post_customers_def generate_blank)

lemma changeOrDelete_Inr:
  assumes "changeOrDelete st now1 now2 req update = Some (Inr c, st', req')"
  shows "\<exists>i<length st. validate st req (if update then Body else Query) = Some (int i) \<and>
           st' = (if update then st[i := c] else take i st @ drop (Suc i) st)"
proof -
  from assms obtain v where v: "validate st req (if update then Body else Query) = Some v"
    by (auto simp: changeOrDelete_def split: if_splits option.splits)
  from assms v have ne: "v \<noteq> - 1"
    by (auto simp: changeOrDelete_def split: if_splits)
  from validate_found [OF v ne] have lt: "nat v < length st" and
    nonneg: "0 \<le> v" by auto
  obtain g st1 req1 where g: "generate st now1 req True = (g, st1, req1)"
    by (cases "generate st now1 req True") auto
  then have st1: "st1 = st" by (rule generate_store)
  from assms v ne g st1 obtain c0 where c0: "g = Inr c0" "c = c0\<lparr>lastupdate := JStr now2\<rparr>"
    and st': "st' = (if update then splice st v 1 [c] else splice st v 1 [])"
    by (cases g) (auto simp: changeOrDelete_def Let_def split: if_splits)
  from st' splice_replace [OF nonneg lt, of c] splice_delete [OF nonneg lt]
  have "st' = (if update then st[nat v := c] else take (nat v) st @ drop (Suc (nat v)) st)"
    by simp
  moreover from v nonneg have "validate st req (if update then Body else Query) = Some (int (nat v))"
    by simp
  ultimately show ?thesis using lt by blast
qed


text \<open>
  A delete whose payload carries an id of its own that cannot be converted to a text:
  the id of the query is found, the factory throws, and nothing is deleted.
\<close>

lemma delete_unconvertible_id_example:
  "changeOrDelete [defaults (Fin 1) ''t0''] ''t1'' ''t2''
     \<lparr>body = Some [''id'' \<mapsto> JObj [(''toString'', JNum (Fin 1))]],
      query = Some [''id'' \<mapsto> JStr ''1'']\<rparr> False =
   Some (Inl TypeError, [defaults (Fin 1) ''t0''],
         \<lparr>body = Some [''id'' \<mapsto> JObj [(''toString'', JNum (Fin 1))]],
          query = Some [''id'' \<mapsto> JStr ''1'']\<rparr>)"
proof -
  let ?rq = "\<lparr>body = Some [''id'' \<mapsto> JObj [(''toString'', JNum (Fin 1))]],
      query = Some [''id'' \<mapsto> JStr ''1'']\<rparr>"
  have v: "validate [defaults (Fin 1) ''t0''] ?rq Query = Some 0"
    using validate_example(1) [of "defaults (Fin 1) ''t0''"] by (simp add: defaults_def)
  have g: "generate [defaults (Fin 1) ''t0''] ''t1'' ?rq True =
             (Inl TypeError, [defaults (Fin 1) ''t0''], ?rq)"
    by (simp add: generate_def Let_def get_prop_def parseFloat_def)
  show ?thesis by (simp add: changeOrDelete_def v g)
qed


section \<open>The ids of the Store stay tracked\<close>

text \<open>
  A Store whose ids are tracked numbers keeps such ids through every create, update and
  delete: an update writes back the id it found, and a create adds one to the maximum.
\<close>

lemma post_customers_tracked:
  assumes "\<forall>d\<in>set st. tracked (cid d)" and "post_customers st now req = (r, st', req')"
  shows "\<forall>d\<in>set st'. tracked (cid d)"
proof -
  have t: "tracked (js_add1 (Math_max (map cid st)))"
    using assms(1) by (intro js_add1_tracked Math_max_tracked) auto
  show ?thesis
  proof (cases "body req")
    case None
    with assms show ?thesis by (simp add: post_customers_def generate_def)
  next
    case (Some b)
    with assms t show ?thesis
      by (auto simp: post_customers_def generate_def Let_def get_prop_upd_same parseFloat_tracked)
  qed
qed

lemma changeOrDelete_tracked:
  assumes tr: "\<forall>d\<in>set st. tracked (cid d)"
    and r: "changeOrDelete st now1 now2 req update = Some (r, st', req')"
  shows "\<forall>d\<in>set st'. tracked (cid d)"
proof (cases "validate st req (if update then Body else Query) = Some (- 1) \<or>
              \<not> ((update \<and> body req \<noteq> None) \<or> (\<not> update \<and> query req \<noteq> None))")
  case True
  with r tr show ?thesis by (auto simp: changeOrDelete_def split: if_splits)
next
  case False
  with r obtain i where i: "validate st req (if update then Body else Query) = Some i"
    by (auto simp: changeOrDelete_def split: if_splits option.splits)
  from False i have ne: "i \<noteq> - 1" by simp
  from validate_found [OF i ne] obtain s x where
    f: "src req (if update then Body else Query) = Some s" "get_prop s ''id'' = JStr x"
       "x \<noteq> []" "nat i < length st" "js_toString (cid (st ! nat i)) = Some x"
       "i = int (length (takeWhile (\<lambda>f. js_toString (cid f) \<noteq> Some x) st))"
    by blast
  from f(6) have nonneg: "0 \<le> i" by simp
  show ?thesis
  proof (cases update)
    case False
    with r \<open>\<not> (_ \<or> _)\<close> i have "st' = splice st i 1 [] \<or> st' = st"
      by (auto simp: changeOrDelete_def Let_def dest: generate_store
               split: if_splits prod.splits sum.splits)
    with splice_delete [OF nonneg f(4)] tr show ?thesis
      by (metis Un_iff in_set_dropD in_set_takeD set_append)
  next
    case True
    with f(1) obtain b where b: "body req = Some b" "s = b" by (auto simp: src_def)
    have "st ! nat i \<in> set st" using f(4) by simp
    with tr have ti: "tracked (cid (st ! nat i))" by blast
    from parseFloat_tracked [OF ti] f(5) have pf: "parseFloat (JStr x) = Inr (cid (st ! nat i))"
      by (simp add: parseFloat_def)
    from b f(2,3) pf have "\<exists>c. generate st now1 req True =
         (Inr c, st, req\<lparr>body := Some (b(''id'' \<mapsto> JStr x))\<rparr>) \<and> cid c = cid (st ! nat i)"
      by (simp add: generate_def Let_def get_prop_upd_same)
    then obtain c where c: "generate st now1 req True =
         (Inr c, st, req\<lparr>body := Some (b(''id'' \<mapsto> JStr x))\<rparr>)"
      "cid c = cid (st ! nat i)" by blast
    from r True b ne c i have "st' = splice st i 1 [c\<lparr>lastupdate := JStr now2\<rparr>]"
      by (simp add: changeOrDelete_def Let_def)
    with splice_replace [OF nonneg f(4)] have "st' = st[nat i := c\<lparr>lastupdate := JStr now2\<rparr>]"
      by simp
    with tr ti c(2) show ?thesis by (auto dest!: set_update_subset_insert [THEN subsetD])
  qed
qed


section \<open>The claims\<close>

subsection \<open>C1: defaults of the factory\<close>

text \<open>
  C1, as amended. In the record that \<open>generate\<close> returns, each of the text fields
  name, address, phone, email, country and contact that is absent from the payload or
  falsy in it holds its placeholder. The field active is \<open>true\<close> when the payload
  sends no value for it, a falsy one (\<open>false\<close> included) or \<open>true\<close>; any other
  truthy value sent for active is returned as it was sent.
\<close>

theorem generate_defaults:
  assumes "generate st now req keepID = (Inr c, st', req')" and "body req = Some b"
  shows "(\<not> truthy (get_prop b ''name'') \<longrightarrow> name c = JStr ''No Name'') \<and>
         (\<not> truthy (get_prop b ''address'') \<longrightarrow> address c = JStr ''No Address'') \<and>
         (\<not> truthy (get_prop b ''phone'') \<longrightarrow> phone c = JStr ''No Phone'') \<and>
         (\<not> truthy (get_prop b ''email'') \<longrightarrow> email c = JStr ''No Email'') \<and>
         (\<not> truthy (get_prop b ''country'') \<longrightarrow> country c = JStr ''No Country'') \<and>
         (\<not> truthy (get_prop b ''contact'') \<longrightarrow> contact c = JStr ''No Contact'') \<and>
         (\<not> truthy (get_prop b ''active'') \<or> get_prop b ''active'' = JBool True
            \<longrightarrow> active c = JBool True) \<and>
         (truthy (get_prop b ''active'') \<longrightarrow> active c = get_prop b ''active'')"
proof -
  from generate_Inr [OF assms] have
    "name c = js_or (get_prop b ''name'') (JStr ''No Name'')"
    "address c = js_or (get_prop b ''address'') (JStr ''No Address'')"
    "phone c = js_or (get_prop b ''phone'') (JStr ''No Phone'')"
    "email c = js_or (get_prop b ''email'') (JStr ''No Email'')"
    "country c = js_or (get_prop b ''country'') (JStr ''No Country'')"
    "active c = js_or (get_prop b ''active'') (JBool True)"
    "contact c = js_or (get_prop b ''contact'') (JStr ''No Contact'')"
    by blast+
  then show ?thesis by (auto simp: js_or_def)
qed

text \<open>
  The theorem at a create request that sends \<open>active: false\<close> and nothing else, on the
  empty Store.
\<close>

theorem generate_defaults_witness:
  "generate [] ''t'' \<lparr>body = Some [''active'' \<mapsto> JBool False], query = None\<rparr> False =
     (Inr (defaults NegInf ''t''), [],
      \<lparr>body = Some [''active'' \<mapsto> JBool False, ''id'' \<mapsto> JNum NegInf], query = None\<rparr>) \<and>
   name (defaults NegInf ''t'') = JStr ''No Name'' \<and>
   address (defaults NegInf ''t'') = JStr ''No Address'' \<and>
   phone (defaults NegInf ''t'') = JStr ''No Phone'' \<and>
   email (defaults NegInf ''t'') = JStr ''No Email'' \<and>
   country (defaults NegInf ''t'') = JStr ''No Country'' \<and>
   contact (defaults NegInf ''t'') = JStr ''No Contact'' \<and>
   active (defaults NegInf ''t'') = JBool True"
proof -
  have g: "generate [] ''t'' \<lparr>body = Some [''active'' \<mapsto> JBool False], query = None\<rparr> False =
     (Inr (defaults NegInf ''t''), [],
      \<lparr>body = Some [''active'' \<mapsto> JBool False, ''id'' \<mapsto> JNum NegInf], query = None\<rparr>)"
    by (simp add: generate_def defaults_def get_prop_def js_or_def js_add1_def
          parseFloat_tracked tracked_def)
  have b: "body \<lparr>body = Some [''active'' \<mapsto> JBool False], query = None\<rparr> =
             Some [''active'' \<mapsto> JBool False]"
    by simp
  show ?thesis using g generate_defaults [OF g b] by (simp add: get_prop_def)
qed

text \<open>
  C1 as stated fails: a payload that sends the text \<open>"no"\<close> for active gets a record
  whose active field is that text, not \<open>true\<close>.
\<close>

theorem generate_active_counterexample:
  "fst (generate [] ''t'' \<lparr>body = Some [''active'' \<mapsto> JStr ''no''], query = None\<rparr> False) =
     Inr ((defaults NegInf ''t'')\<lparr>active := JStr ''no''\<rparr>) \<and>
   active ((defaults NegInf ''t'')\<lparr>active := JStr ''no''\<rparr>) \<noteq> JBool True"
  by (simp add: generate_def defaults_def get_prop_def js_or_def js_add1_def
        parseFloat_tracked tracked_def)

subsection \<open>C2: the id of a new customer\<close>

text \<open>
  C2, as amended. On a Store that is not empty and whose ids are all integers from
  \<open>- 2 ^ 53\<close> to \<open>2 ^ 53 - 1\<close>, a create request with a payload returns a record whose
  id is the maximum \<open>m\<close> of the ids of the Store plus 1, appends that record to the
  Store, and no record of the Store had that id.
\<close>

theorem create_id_is_max_plus_one:
  assumes ne: "st \<noteq> []"
    and ids: "\<forall>d\<in>set st. \<exists>k. cid d = Fin k \<and> - (2 ^ 53) \<le> k \<and> k < 2 ^ 53"
    and b: "body req = Some b"
  shows "\<exists>c req' m. post_customers st now req = (Inr c, st @ [c], req') \<and>
           Fin m \<in> cid ` set st \<and> (\<forall>d\<in>set st. \<exists>k. cid d = Fin k \<and> k \<le> m) \<and>
           cid c = Fin (m + 1) \<and> cid c \<notin> cid ` set st"
proof -
  have "map cid st \<noteq> []" using ne by simp
  moreover have "\<forall>n\<in>set (map cid st). \<exists>k. n = Fin k" using ids by auto
  ultimately obtain m where m: "Math_max (map cid st) = Fin m" "Fin m \<in> set (map cid st)"
    "\<forall>k. Fin k \<in> set (map cid st) \<longrightarrow> k \<le> m"
    using Math_max_fin by blast
  from m(2) ids have bounds: "- (2 ^ 53) \<le> m" "m < 2 ^ 53" by auto
  then have add: "js_add1 (Fin m) = Fin (m + 1)" by (simp add: js_add1_def tracked_def)
  from bounds have "tracked (Fin (m + 1))" by (simp add: tracked_def)
  then have pf: "parseFloat (JNum (Fin (m + 1))) = Inr (Fin (m + 1))"
    by (rule parseFloat_tracked)
  obtain c where c: "c = \<lparr> cid = Fin (m + 1),
                 name = js_or (get_prop b ''name'') (JStr ''No Name''),
                 address = js_or (get_prop b ''address'') (JStr ''No Address''),
                 phone = js_or (get_prop b ''phone'') (JStr ''No Phone''),
                 email = js_or (get_prop b ''email'') (JStr ''No Email''),
                 lastupdate = js_or (get_prop b ''lastupdate'') (JStr now),
                 country = js_or (get_prop b ''country'') (JStr ''No Country''),
                 active = js_or (get_prop b ''active'') (JBool True),
                 contact = js_or (get_prop b ''contact'') (JStr ''No Contact'') \<rparr>"
    by blast
  have g: "generate st now req False =
             (Inr c, st, req\<lparr>body := Some (b(''id'' \<mapsto> JNum (Fin (m + 1))))\<rparr>)"
    unfolding c using b
    by (simp add: generate_def m(1) add pf get_prop_upd_other get_prop_upd_same)
  have p: "post_customers st now req =
             (Inr c, st @ [c], req\<lparr>body := Some (b(''id'' \<mapsto> JNum (Fin (m + 1))))\<rparr>)"
    by (simp add: post_customers_def g)
  have cidc: "cid c = Fin (m + 1)" by (simp add: c)
  have le: "\<forall>d\<in>set st. \<exists>k. cid d = Fin k \<and> k \<le> m"
  proof
    fix d assume d: "d \<in> set st"
    with ids obtain k where k: "cid d = Fin k" by blast
    with d have "Fin k \<in> set (map cid st)" by force
    with m(3) have "k \<le> m" by blast
    with k show "\<exists>k. cid d = Fin k \<and> k \<le> m" by blast
  qed
  have fresh: "cid c \<notin> cid ` set st"
  proof
    assume "cid c \<in> cid ` set st"
    then obtain d where d: "d \<in> set st" "cid d = Fin (m + 1)" using cidc by auto
    with le obtain k where "cid d = Fin k" "k \<le> m" by blast
    with d show False by simp
  qed
  from m(2) have "Fin m \<in> cid ` set st" by simp
  with p le cidc fresh show ?thesis by blast
qed

text \<open>
  The theorem on the Store that holds one customer, of id 1: the new customer gets id 2.
\<close>

theorem create_id_is_max_plus_one_witness:
  "post_customers [defaults (Fin 1) ''t0''] ''t'' \<lparr>body = Some Map.empty, query = None\<rparr> =
     (Inr (defaults (Fin 2) ''t''), [defaults (Fin 1) ''t0'', defaults (Fin 2) ''t''],
      \<lparr>body = Some [''id'' \<mapsto> JNum (Fin 2)], query = None\<rparr>) \<and>
   cid (defaults (Fin 2) ''t'') \<notin> cid ` set [defaults (Fin 1) ''t0'']"
proof -
  have ne: "[defaults (Fin 1) ''t0''] \<noteq> []" by simp
  have ids: "\<forall>d\<in>set [defaults (Fin 1) ''t0''].
               \<exists>k. cid d = Fin k \<and> - (2 ^ 53) \<le> k \<and> k < 2 ^ 53"
    by (simp add: defaults_def)
  have b: "body \<lparr>body = Some Map.empty, query = None\<rparr> = Some Map.empty" by simp
  have p: "post_customers [defaults (Fin 1) ''t0''] ''t'' \<lparr>body = Some Map.empty, query = None\<rparr> =
     (Inr (defaults (Fin 2) ''t''), [defaults (Fin 1) ''t0'', defaults (Fin 2) ''t''],
      \<lparr>body = Some [''id'' \<mapsto> JNum (Fin 2)], query = None\<rparr>)"
    by (simp add: post_customers_def generate_def defaults_def js_max2_def js_add1_def
        parseFloat_tracked tracked_def get_prop_def js_or_def)
  show ?thesis
    using create_id_is_max_plus_one [OF ne ids b, of "''t''"] p by (simp add: defaults_def)
qed

text \<open>
  C2 as stated fails on a Store the service reaches by itself. A create on the empty
  Store stores a customer of id \<open>-Infinity\<close>; on this Store, which is not empty, the
  next create returns the id \<open>-Infinity\<close> again (\<open>-Infinity + 1\<close> is \<open>-Infinity\<close>), which
  is the id of the customer already there.
\<close>

theorem create_id_counterexample:
  "post_customers [] ''t'' \<lparr>body = Some Map.empty, query = None\<rparr> =
     (Inr (defaults NegInf ''t''), [defaults NegInf ''t''],
      \<lparr>body = Some [''id'' \<mapsto> JNum NegInf], query = None\<rparr>) \<and>
   post_customers [defaults NegInf ''t''] ''u'' \<lparr>body = Some Map.empty, query = None\<rparr> =
     (Inr (defaults NegInf ''u''), [defaults NegInf ''t'', defaults NegInf ''u''],
      \<lparr>body = Some [''id'' \<mapsto> JNum NegInf], query = None\<rparr>) \<and>
   cid (defaults NegInf ''u'') \<in> cid ` set [defaults NegInf ''t'']"
  by (simp add: post_blank post_customers_def generate_def defaults_def js_max2_def js_add1_def
        parseFloat_tracked tracked_def get_prop_def js_or_def)

subsection \<open>C3: the locator\<close>

text \<open>
  C3 does not hold of the code. The Store holds one customer, of id 1. A source whose id
  is the number 1 is not found, although the text of that id and the text of the stored id
  are the same; a source whose id is the text \<open>"1"\<close> is found at position 0. The code
  converts the stored id only and compares with \<open>===\<close>: \<open>validate_not_text\<close> above says
  that no id other than a text is ever found. For a source id that is a text,
  \<open>validate_text\<close> above is what the claim says: the first position whose id prints as
  that text, or -1.
\<close>

theorem validate_numeric_id_not_found:
  "validate [defaults (Fin 1) ''t0'']
     \<lparr>body = Some [''id'' \<mapsto> JNum (Fin 1)], query = None\<rparr> Body = Some (- 1) \<and>
   ToString (JNum (Fin 1)) = Inr (js_toString (cid (defaults (Fin 1) ''t0''))) \<and>
   validate [defaults (Fin 1) ''t0'']
     \<lparr>body = Some [''id'' \<mapsto> JStr ''1''], query = None\<rparr> Body = Some 0"
  using validate_example(2,3) [of "defaults (Fin 1) ''t0''" Map.empty None]
  by (simp add: defaults_def)

subsection \<open>C4: an update\<close>

text \<open>
  C4 does not hold of the code when the payload is the JSON object \<open>{id: 1, name: "B"}\<close>:
  on the Store that holds the customer of id 1 and name \<open>"A"\<close> (its other fields any),
  the update fails with \<open>'ID was not found!'\<close> and the Store is unchanged. With the id
  sent as the text \<open>"1"\<close> the update does what the claim says: the customer stored at the
  same position has id 1, name \<open>"B"\<close>, the time of the update, and every other field at its
  default, whatever the old customer held.
\<close>

theorem update_numeric_id_fails:
  "changeOrDelete [old\<lparr>cid := Fin 1, name := JStr ''A''\<rparr>] now1 now2
     \<lparr>body = Some [''id'' \<mapsto> JNum (Fin 1), ''name'' \<mapsto> JStr ''B''], query = q\<rparr> True =
   Some (Inl RecordNotFound, [old\<lparr>cid := Fin 1, name := JStr ''A''\<rparr>],
         \<lparr>body = Some [''id'' \<mapsto> JNum (Fin 1), ''name'' \<mapsto> JStr ''B''], query = q\<rparr>) \<and>
   changeOrDelete [old\<lparr>cid := Fin 1, name := JStr ''A''\<rparr>] now1 now2
     \<lparr>body = Some [''id'' \<mapsto> JStr ''1'', ''name'' \<mapsto> JStr ''B''], query = q\<rparr> True =
   Some (Inr ((defaults (Fin 1) now2)\<lparr>name := JStr ''B''\<rparr>),
         [(defaults (Fin 1) now2)\<lparr>name := JStr ''B''\<rparr>],
         \<lparr>body = Some [''id'' \<mapsto> JStr ''1'', ''name'' \<mapsto> JStr ''B''], query = q\<rparr>)"
proof -
  let ?st = "[old\<lparr>cid := Fin 1, name := JStr ''A''\<rparr>]"
  have v1: "validate ?st
      \<lparr>body = Some [''id'' \<mapsto> JNum (Fin 1), ''name'' \<mapsto> JStr ''B''], query = q\<rparr> Body = Some (- 1)"
    by (simp add: validate_def src_def get_prop_def id_matches_def js_toString_1)
  have v2: "validate ?st
      \<lparr>body = Some [''id'' \<mapsto> JStr ''1'', ''name'' \<mapsto> JStr ''B''], query = q\<rparr> Body = Some 0"
    by (simp add: validate_def src_def get_prop_def id_matches_def js_toString_1 indexOf_def)
  have m: "[''name'' \<mapsto> JStr ''B'', ''id'' \<mapsto> JStr ''1''] =
           [''id'' \<mapsto> JStr ''1'', ''name'' \<mapsto> JStr ''B'']"
    by (rule ext) simp
  have g: "generate ?st now1
      \<lparr>body = Some [''id'' \<mapsto> JStr ''1'', ''name'' \<mapsto> JStr ''B''], query = q\<rparr> True =
      (Inr ((defaults (Fin 1) now1)\<lparr>name := JStr ''B''\<rparr>), ?st,
       \<lparr>body = Some [''id'' \<mapsto> JStr ''1'', ''name'' \<mapsto> JStr ''B''], query = q\<rparr>)"
    by (simp add: generate_def Let_def m get_prop_def js_or_def defaults_def parseFloat_text_1)
  show ?thesis
    by (simp add: changeOrDelete_def Let_def v1 v2 g splice_def defaults_def)
qed

subsection \<open>C5: a delete, and the same delete again\<close>

text \<open>
  C5, as amended. The Store holds at position \<open>i\<close> a customer whose id prints as the
  text \<open>x\<close>, and every other customer of the Store has an id that prints as another text.
  A delete request whose query carries the id \<open>x\<close> (and that has a payload, as every
  request has behind the JSON middleware) does what the factory's result \<open>r\<close> on that
  request decides. When the factory returns a record, the delete removes the customer at
  \<open>i\<close> and returns that record with the time of last update set to the current time.
  When the factory throws, which it does only with a \<open>TypeError\<close> and only when the
  payload carries a truthy id of its own, the delete throws the same error and the Store
  is unchanged. After the removal, every delete request whose query carries the id
  \<open>x\<close> fails with \<open>RecordNotFound\<close> and leaves the Store as it is.
\<close>

theorem delete_then_not_found:
  assumes q: "query req = Some q" "get_prop q ''id'' = JStr x" "x \<noteq> []"
    and b: "body req = Some b"
    and g: "generate st now1 req True = (r, st1, req')"
    and i: "i < length st" "js_toString (cid (st ! i)) = Some x"
    and uniq: "\<forall>j<length st. j \<noteq> i \<longrightarrow>
                 (\<exists>t. js_toString (cid (st ! j)) = Some t \<and> t \<noteq> x)"
    and q2: "query req2 = Some q2" "get_prop q2 ''id'' = JStr x"
  shows "changeOrDelete st now1 now2 req False =
           Some (case r of
                   Inl e \<Rightarrow> (Inl e, st, req')
                 | Inr c \<Rightarrow> (Inr (c\<lparr>lastupdate := JStr now2\<rparr>),
                             take i st @ drop (Suc i) st, req')) \<and>
         (\<forall>e. r = Inl e \<longrightarrow> e = TypeError \<and> truthy (get_prop b ''id'')) \<and>
         changeOrDelete (take i st @ drop (Suc i) st) now3 now4 req2 False =
           Some (Inl RecordNotFound, take i st @ drop (Suc i) st, req2)"
proof -
  have st1: "st1 = st" using g by (rule generate_store)
  have s: "src req Query = Some q" using q(1) by (simp add: src_def)
  have all: "\<forall>f\<in>set st. js_toString (cid f) \<noteq> None"
  proof
    fix f assume "f \<in> set st"
    then obtain j where j: "j < length st" "f = st ! j" by (auto simp: in_set_conv_nth)
    show "js_toString (cid f) \<noteq> None"
    proof (cases "j = i")
      case True
      with j i(2) show ?thesis by simp
    next
      case False
      with j uniq show ?thesis by auto
    qed
  qed
  have "\<forall>j<i. js_toString (cid (st ! j)) \<noteq> Some x"
  proof (intro allI impI)
    fix j assume "j < i"
    with i(1) have "j < length st" "j \<noteq> i" by simp_all
    with uniq obtain t where "js_toString (cid (st ! j)) = Some t" "t \<noteq> x" by blast
    then show "js_toString (cid (st ! j)) \<noteq> Some x" by simp
  qed
  then have v: "validate st req Query = Some (int i)"
    using validate_at [OF s q(2,3) all i] by blast
  have sp: "splice st (int i) 1 [] = take i st @ drop (Suc i) st"
    using splice_delete [of "int i" st] i(1) by simp
  have first: "changeOrDelete st now1 now2 req False =
           Some (case r of
                   Inl e \<Rightarrow> (Inl e, st, req')
                 | Inr c \<Rightarrow> (Inr (c\<lparr>lastupdate := JStr now2\<rparr>),
                             take i st @ drop (Suc i) st, req'))"
    using q(1) by (cases r) (simp_all add: changeOrDelete_def v g st1 sp Let_def del: One_nat_def)
  have ok: "\<forall>e. r = Inl e \<longrightarrow> e = TypeError \<and> truthy (get_prop b ''id'')"
  proof (intro allI impI conjI)
    fix e assume e: "r = Inl e"
    with g generate_error show "e = TypeError" by blast
    show "truthy (get_prop b ''id'')"
    proof (rule ccontr)
      assume "\<not> truthy (get_prop b ''id'')"
      from generate_keep_text [OF b this q(1,2), of st now1] g e show False by auto
    qed
  qed
  have s2: "src req2 Query = Some q2" using q2(1) by (simp add: src_def)
  have rem: "\<forall>f\<in>set (take i st @ drop (Suc i) st).
               js_toString (cid f) \<noteq> None \<and> js_toString (cid f) \<noteq> Some x"
  proof
    fix f assume "f \<in> set (take i st @ drop (Suc i) st)"
    from set_remove_nth [OF this] obtain j where "j < length st" "j \<noteq> i" "f = st ! j"
      by blast
    with uniq obtain t where "js_toString (cid f) = Some t" "t \<noteq> x" by blast
    then show "js_toString (cid f) \<noteq> None \<and> js_toString (cid f) \<noteq> Some x" by simp
  qed
  then have v2: "validate (take i st @ drop (Suc i) st) req2 Query = Some (- 1)"
    using validate_none [OF s2 q2(2)] by blast
  have second: "changeOrDelete (take i st @ drop (Suc i) st) now3 now4 req2 False =
             Some (Inl RecordNotFound, take i st @ drop (Suc i) st, req2)"
    using q2(1) by (simp add: changeOrDelete_def v2)
  from first ok second show ?thesis by (intro conjI)
qed

text \<open>
  The theorem on the Store that holds one customer, of id 1, deleted twice.
\<close>

theorem delete_then_not_found_witness:
  "changeOrDelete [defaults (Fin 1) ''t0''] ''t1'' ''t2''
     \<lparr>body = Some Map.empty, query = Some [''id'' \<mapsto> JStr ''1'']\<rparr> False =
   Some (Inr (defaults (Fin 1) ''t2''), [],
         \<lparr>body = Some [''id'' \<mapsto> JStr ''1''], query = Some [''id'' \<mapsto> JStr ''1'']\<rparr>) \<and>
   changeOrDelete [] ''t3'' ''t4''
     \<lparr>body = Some Map.empty, query = Some [''id'' \<mapsto> JStr ''1'']\<rparr> False =
   Some (Inl RecordNotFound, [],
         \<lparr>body = Some Map.empty, query = Some [''id'' \<mapsto> JStr ''1'']\<rparr>)"
proof -
  let ?rq = "\<lparr>body = Some Map.empty, query = Some [''id'' \<mapsto> JStr ''1'']\<rparr>"
  let ?rq' = "\<lparr>body = Some [''id'' \<mapsto> JStr ''1''], query = Some [''id'' \<mapsto> JStr ''1'']\<rparr>"
  let ?st = "[defaults (Fin 1) ''t0'']"
  have q: "query ?rq = Some [''id'' \<mapsto> JStr ''1'']" by simp
  have x: "get_prop [''id'' \<mapsto> JStr ''1''] ''id'' = JStr ''1''" by (simp add: get_prop_def)
  have ne: "''1'' \<noteq> []" by simp
  have b: "body ?rq = Some Map.empty" by simp
  have i: "0 < length ?st" by simp
  have t: "js_toString (cid (?st ! 0)) = Some ''1''" by (simp add: defaults_def js_toString_1)
  have u: "\<forall>j<length ?st. j \<noteq> 0 \<longrightarrow> (\<exists>t. js_toString (cid (?st ! j)) = Some t \<and> t \<noteq> ''1'')"
    by simp
  have g: "generate ?st ''t1'' ?rq True = (Inr (defaults (Fin 1) ''t1''), ?st, ?rq')"
    by (simp add: generate_def Let_def get_prop_def js_or_def defaults_def parseFloat_text_1)
  note D = delete_then_not_found [OF q x ne b g i t u q x, of "''t2''" "''t3''" "''t4''"]
  have 1: "changeOrDelete ?st ''t1'' ''t2'' ?rq False =
             Some (Inr (defaults (Fin 1) ''t2''), [], ?rq')"
    using D [THEN conjunct1] by (simp add: defaults_def)
  have 2: "changeOrDelete [] ''t3'' ''t4'' ?rq False = Some (Inl RecordNotFound, [], ?rq)"
    using D [THEN conjunct2, THEN conjunct2] by simp
  from 1 2 show ?thesis by (intro conjI)
qed

text \<open>
  C5 as stated fails when two customers have the id. Two creates on the empty Store give
  two customers of id \<open>-Infinity\<close> (see C2); a delete of that id removes the first of
  them, and the same delete again succeeds and removes the second.
\<close>

theorem delete_twice_counterexample:
  "changeOrDelete [defaults NegInf ''t'', defaults NegInf ''u''] ''t1'' ''t2''
     \<lparr>body = Some Map.empty, query = Some [''id'' \<mapsto> JStr ''-Infinity'']\<rparr> False =
   Some (Inr (defaults NegInf ''t2''), [defaults NegInf ''u''],
         \<lparr>body = Some [''id'' \<mapsto> JStr ''-Infinity''],
          query = Some [''id'' \<mapsto> JStr ''-Infinity'']\<rparr>) \<and>
   changeOrDelete [defaults NegInf ''u''] ''t3'' ''t4''
     \<lparr>body = Some Map.empty, query = Some [''id'' \<mapsto> JStr ''-Infinity'']\<rparr> False =
   Some (Inr (defaults NegInf ''t4''), [],
         \<lparr>body = Some [''id'' \<mapsto> JStr ''-Infinity''],
          query = Some [''id'' \<mapsto> JStr ''-Infinity'']\<rparr>)"
proof -
  let ?rq = "\<lparr>body = Some Map.empty, query = Some [''id'' \<mapsto> JStr ''-Infinity'']\<rparr>"
  have v1: "validate [defaults NegInf ''t'', defaults NegInf ''u''] ?rq Query = Some 0"
    by (simp add: validate_def src_def get_prop_def id_matches_def js_toString_def defaults_def
          indexOf_def)
  have v2: "validate [defaults NegInf ''u''] ?rq Query = Some 0"
    by (simp add: validate_def src_def get_prop_def id_matches_def js_toString_def defaults_def
          indexOf_def)
  have g: "\<And>st now. generate st now ?rq True =
             (Inr (defaults NegInf now), st,
              \<lparr>body = Some [''id'' \<mapsto> JStr ''-Infinity''],
               query = Some [''id'' \<mapsto> JStr ''-Infinity'']\<rparr>)"
    by (simp add: generate_def Let_def get_prop_def js_or_def defaults_def parseFloat_text_neginf)
  show ?thesis
    by (simp add: changeOrDelete_def Let_def v1 v2 g splice_def) (simp add: defaults_def)
qed

subsection \<open>C6: a request without an id\<close>

text \<open>
  C6, as amended. An update whose payload is present, or a delete whose query is present,
  but that carries no id there (or a falsy one), fails with \<open>RecordNotFound\<close>
  (\<open>'ID was not found!'\<close>), and the Store and the request are unchanged.
  \<open>MissingInput\<close> is what the handler throws when the payload, or the query, is itself
  missing, and only then: with the source present, whatever it carries, the handler never
  ends with \<open>MissingInput\<close>.
\<close>

theorem changeOrDelete_no_id:
  "(src req (if update then Body else Query) = None \<longrightarrow>
      changeOrDelete st now1 now2 req update = Some (Inl MissingInput, st, req)) \<and>
   (\<forall>s. src req (if update then Body else Query) = Some s \<longrightarrow>
      (\<forall>r. changeOrDelete st now1 now2 req update = Some r \<longrightarrow> fst r \<noteq> Inl MissingInput) \<and>
      (\<not> truthy (get_prop s ''id'') \<longrightarrow>
         changeOrDelete st now1 now2 req update = Some (Inl RecordNotFound, st, req)))"
proof (intro conjI allI impI)
  assume "src req (if update then Body else Query) = None"
  then show "changeOrDelete st now1 now2 req update = Some (Inl MissingInput, st, req)"
    by (cases update) (auto simp: changeOrDelete_def src_def)
next
  fix s r
  assume s: "src req (if update then Body else Query) = Some s"
    and r: "changeOrDelete st now1 now2 req update = Some r"
  have present: "(update \<and> body req \<noteq> None) \<or> (\<not> update \<and> query req \<noteq> None)"
    using s by (cases update) (auto simp: src_def)
  show "fst r \<noteq> Inl MissingInput"
  proof
    assume m: "fst r = Inl MissingInput"
    from r present obtain v where v: "validate st req (if update then Body else Query) = Some v"
      by (auto simp: changeOrDelete_def split: option.splits)
    show False
    proof (cases "v = - 1")
      case True
      with r present v m show False by (auto simp: changeOrDelete_def)
    next
      case False
      obtain g st1 req1 where g: "generate st now1 req True = (g, st1, req1)"
        by (cases "generate st now1 req True") auto
      show False
      proof (cases g)
        case (Inl e)
        with g generate_error have "e = TypeError" by blast
        with r present v False g Inl m show False by (auto simp: changeOrDelete_def)
      next
        case (Inr c)
        with r present v False g m show False by (auto simp: changeOrDelete_def Let_def)
      qed
    qed
  qed
next
  fix s
  assume "src req (if update then Body else Query) = Some s"
    and "\<not> truthy (get_prop s ''id'')"
  then show "changeOrDelete st now1 now2 req update = Some (Inl RecordNotFound, st, req)"
    by (cases update) (auto simp: changeOrDelete_def validate_def src_def)
qed

text \<open>
  The theorem at an update whose payload has a name and no id, and at an update without
  a payload.
\<close>

theorem changeOrDelete_no_id_witness:
  "changeOrDelete [defaults (Fin 1) ''t0''] ''t1'' ''t2''
     \<lparr>body = Some [''name'' \<mapsto> JStr ''B''], query = None\<rparr> True =
   Some (Inl RecordNotFound, [defaults (Fin 1) ''t0''],
         \<lparr>body = Some [''name'' \<mapsto> JStr ''B''], query = None\<rparr>) \<and>
   fst (Inl RecordNotFound :: error + customer, [defaults (Fin 1) ''t0''],
        \<lparr>body = Some [''name'' \<mapsto> JStr ''B''], query = None\<rparr>) \<noteq> Inl MissingInput \<and>
   changeOrDelete [defaults (Fin 1) ''t0''] ''t1'' ''t2''
     \<lparr>body = None, query = None\<rparr> True =
   Some (Inl MissingInput, [defaults (Fin 1) ''t0''], \<lparr>body = None, query = None\<rparr>)"
proof -
  let ?st = "[defaults (Fin 1) ''t0'']"
  let ?rq = "\<lparr>body = Some [''name'' \<mapsto> JStr ''B''], query = None\<rparr>"
  have s: "src ?rq (if True then Body else Query) = Some [''name'' \<mapsto> JStr ''B'']"
    by (simp add: src_def)
  have n: "\<not> truthy (get_prop [''name'' \<mapsto> JStr ''B''] ''id'')"
    by (simp add: get_prop_def)
  have a: "src \<lparr>body = None, query = None\<rparr> (if True then Body else Query) = None"
    by (simp add: src_def)
  from changeOrDelete_no_id [of ?rq True ?st "''t1''" "''t2''"] s n
  have 1: "changeOrDelete ?st ''t1'' ''t2'' ?rq True = Some (Inl RecordNotFound, ?st, ?rq)"
    and 2: "\<forall>r. changeOrDelete ?st ''t1'' ''t2'' ?rq True = Some r \<longrightarrow> fst r \<noteq> Inl MissingInput"
    by blast+
  from changeOrDelete_no_id [of "\<lparr>body = None, query = None\<rparr>" True ?st "''t1''" "''t2''"] a
  have 3: "changeOrDelete ?st ''t1'' ''t2'' \<lparr>body = None, query = None\<rparr> True =
             Some (Inl MissingInput, ?st, \<lparr>body = None, query = None\<rparr>)"
    by blast
  from 1 2 3 show ?thesis by blast
qed

text \<open>
  C6 as stated fails: the update whose payload has no id fails with \<open>RecordNotFound\<close>,
  not with \<open>MissingInput\<close>.
\<close>

theorem changeOrDelete_no_id_counterexample:
  "changeOrDelete [defaults (Fin 1) ''t0''] ''t1'' ''t2''
     \<lparr>body = Some [''name'' \<mapsto> JStr ''B''], query = None\<rparr> True =
   Some (Inl RecordNotFound, [defaults (Fin 1) ''t0''],
         \<lparr>body = Some [''name'' \<mapsto> JStr ''B''], query = None\<rparr>) \<and>
   (Inl RecordNotFound :: error + customer) \<noteq> Inl MissingInput"
  by (simp add: changeOrDelete_def validate_def src_def get_prop_def)

subsection \<open>C7: the list filtered by id\<close>

text \<open>
  C7 does not hold of the code. The Store holds one customer, of id 1, whose id prints
  as \<open>"1"\<close>. The list request with the filter \<open>id=1\<close> returns the empty list, and
  leaves the Store as it is; \<open>validate\<close>, on the same request, finds the customer at
  position 0. The handler compares the stored number with the text of the query by
  \<open>===\<close>, without converting either.
\<close>

theorem list_by_id_finds_nothing:
  "get_customers [defaults (Fin 1) ''t0'']
     \<lparr>body = Some Map.empty, query = Some [''id'' \<mapsto> JStr ''1'']\<rparr> =
     (Inr (Some []), [defaults (Fin 1) ''t0'']) \<and>
   js_toString (cid (defaults (Fin 1) ''t0'')) = Some ''1'' \<and>
   validate [defaults (Fin 1) ''t0'']
     \<lparr>body = Some Map.empty, query = Some [''id'' \<mapsto> JStr ''1'']\<rparr> Query = Some 0"
  using validate_example(1) [of "defaults (Fin 1) ''t0''" "Some Map.empty"]
  by (simp add: get_customers_def get_prop_def strict_eq_num_def defaults_def js_toString_1)

text \<open>
  More generally, whatever the Store, a list request whose filter is a text (as every
  value of a query string is) and that sends no \<open>qty\<close> returns the empty list.
\<close>

lemma get_customers_text_id:
  assumes "query req = Some q" and "get_prop q ''id'' = JStr x" and "x \<noteq> []"
    and "\<not> truthy (get_prop q ''qty'')"
  shows "get_customers st req = (Inr (Some []), st)"
  using assms by (simp add: get_customers_def strict_eq_num_def list_ex_iff)

subsection \<open>C8: the effects of the factory\<close>

text \<open>
  C8, as amended. \<open>generate\<close> leaves the Store and the query of the request unchanged,
  and throws nothing but a \<open>TypeError\<close>. Of the payload it changes the property id and
  no other. What it writes there is the new id (one more than the maximum of the stored
  ids) when the id is not preserved; when it is preserved, the payload's own id if that is
  truthy, and else the id of the query. The id of the returned record is \<open>parseFloat\<close>
  of the value written. The clock is read for the time of last update, which is the
  payload's own when that is truthy and the current time otherwise. A request without a
  payload, or without a query when the query is needed, is left as it is.
\<close>

theorem generate_frame:
  assumes "generate st now req keepID = (r, st', req')"
  shows "st' = st \<and> query req' = query req \<and>
         (body req = None \<longrightarrow> r = Inl TypeError \<and> req' = req) \<and>
         (\<forall>b. body req = Some b \<longrightarrow>
            (\<exists>b'. body req' = Some b' \<and> (\<forall>k. k \<noteq> ''id'' \<longrightarrow> b' k = b k)) \<and>
            (\<not> keepID \<longrightarrow>
               req' = req\<lparr>body := Some (b(''id'' \<mapsto> JNum (js_add1 (Math_max (map cid st)))))\<rparr>) \<and>
            (keepID \<and> truthy (get_prop b ''id'') \<longrightarrow>
               req' = req\<lparr>body := Some (b(''id'' \<mapsto> get_prop b ''id''))\<rparr>) \<and>
            (keepID \<and> \<not> truthy (get_prop b ''id'') \<longrightarrow>
               (query req = None \<longrightarrow> r = Inl TypeError \<and> req' = req) \<and>
               (\<forall>q. query req = Some q \<longrightarrow>
                  req' = req\<lparr>body := Some (b(''id'' \<mapsto> get_prop q ''id''))\<rparr>))) \<and>
         (\<forall>c. r = Inr c \<longrightarrow>
            (\<exists>b v. body req = Some b \<and> body req' = Some (b(''id'' \<mapsto> v)) \<and>
                   parseFloat v = Inr (cid c) \<and>
                   lastupdate c = js_or (get_prop b ''lastupdate'') (JStr now))) \<and>
         (\<forall>e. r = Inl e \<longrightarrow> e = TypeError)"
proof -
  have err: "\<forall>e. r = Inl e \<longrightarrow> e = TypeError"
    using assms generate_error by blast
  have inr: "\<forall>c. r = Inr c \<longrightarrow>
            (\<exists>b v. body req = Some b \<and> body req' = Some (b(''id'' \<mapsto> v)) \<and>
                   parseFloat v = Inr (cid c) \<and>
                   lastupdate c = js_or (get_prop b ''lastupdate'') (JStr now))"
  proof (intro allI impI)
    fix c assume c: "r = Inr c"
    with assms obtain b where b: "body req = Some b"
      by (cases "body req") (auto simp: generate_def)
    from generate_Inr [OF assms [unfolded c] b] b show
      "\<exists>b v. body req = Some b \<and> body req' = Some (b(''id'' \<mapsto> v)) \<and>
             parseFloat v = Inr (cid c) \<and>
             lastupdate c = js_or (get_prop b ''lastupdate'') (JStr now)"
      by auto
  qed
  have frame: "st' = st \<and> query req' = query req \<and>
         (body req = None \<longrightarrow> r = Inl TypeError \<and> req' = req) \<and>
         (\<forall>b. body req = Some b \<longrightarrow>
            (\<exists>b'. body req' = Some b' \<and> (\<forall>k. k \<noteq> ''id'' \<longrightarrow> b' k = b k)) \<and>
            (\<not> keepID \<longrightarrow>
               req' = req\<lparr>body := Some (b(''id'' \<mapsto> JNum (js_add1 (Math_max (map cid st)))))\<rparr>) \<and>
            (keepID \<and> truthy (get_prop b ''id'') \<longrightarrow>
               req' = req\<lparr>body := Some (b(''id'' \<mapsto> get_prop b ''id''))\<rparr>) \<and>
            (keepID \<and> \<not> truthy (get_prop b ''id'') \<longrightarrow>
               (query req = None \<longrightarrow> r = Inl TypeError \<and> req' = req) \<and>
               (\<forall>q. query req = Some q \<longrightarrow>
                  req' = req\<lparr>body := Some (b(''id'' \<mapsto> get_prop q ''id''))\<rparr>)))"
  proof (cases "body req")
    case None
    with assms show ?thesis by (simp add: generate_def)
  next
    case (Some b)
    show ?thesis
    proof (cases "keepID \<and> \<not> truthy (get_prop b ''id'') \<and> query req = None")
      case True
      with assms Some show ?thesis by (simp add: generate_def)
    next
      case False
      define v where "v = (if \<not> keepID then JNum (js_add1 (Math_max (map cid st)))
                           else if truthy (get_prop b ''id'') then get_prop b ''id''
                           else get_prop (the (query req)) ''id'')"
      have w: "snd (generate st now req keepID) = (st, req\<lparr>body := Some (b(''id'' \<mapsto> v))\<rparr>)"
        using Some False
        by (auto simp: generate_def Let_def v_def split: sum.splits)
      with assms have *: "st' = st" "req' = req\<lparr>body := Some (b(''id'' \<mapsto> v))\<rparr>" by simp_all
      from * Some False show ?thesis by (auto simp: v_def)
    qed
  qed
  from frame inr err show ?thesis by blast
qed

text \<open>
  The theorem at a create request with an empty payload, on the empty Store.
\<close>

theorem generate_frame_witness:
  "generate [] ''t'' \<lparr>body = Some Map.empty, query = None\<rparr> False =
     (Inr (defaults NegInf ''t''), [], \<lparr>body = Some [''id'' \<mapsto> JNum NegInf], query = None\<rparr>) \<and>
   query \<lparr>body = Some [''id'' \<mapsto> JNum NegInf], query = None\<rparr> =
     query \<lparr>body = Some Map.empty, query = None\<rparr> \<and>
   \<lparr>body = Some [''id'' \<mapsto> JNum NegInf], query = None\<rparr> =
     \<lparr>body = Some Map.empty, query = None\<rparr>
       \<lparr>body := Some (Map.empty(''id'' \<mapsto> JNum (js_add1 (Math_max (map cid [])))))\<rparr>"
proof -
  let ?rq = "\<lparr>body = Some Map.empty, query = None\<rparr>"
  let ?rq' = "\<lparr>body = Some [''id'' \<mapsto> JNum NegInf], query = None\<rparr>"
  have g: "generate [] ''t'' ?rq False = (Inr (defaults NegInf ''t''), [], ?rq')"
    by (rule generate_blank)
  note F = generate_frame [OF g]
  have q: "query ?rq' = query ?rq"
    by (rule F [THEN conjunct2, THEN conjunct1])
  have b: "body ?rq = Some Map.empty" by simp
  have nk: "\<not> False" by simp
  have w: "?rq' = ?rq\<lparr>body := Some (Map.empty(''id'' \<mapsto> JNum (js_add1 (Math_max (map cid [])))))\<rparr>"
    using F [THEN conjunct2, THEN conjunct2, THEN conjunct2, THEN conjunct1, rule_format,
          OF b, THEN conjunct2, THEN conjunct1]
    by simp
  from g q w show ?thesis by (intro conjI)
qed

text \<open>
  C8 as stated fails: after that create request, the request is not what it was, because
  its payload has an id.
\<close>

theorem generate_frame_counterexample:
  "snd (snd (generate [] ''t'' \<lparr>body = Some Map.empty, query = None\<rparr> False)) \<noteq>
     \<lparr>body = Some Map.empty, query = None\<rparr>"
proof -
  have "[''id'' \<mapsto> JNum NegInf] ''id'' \<noteq> (Map.empty :: obj) ''id''" by simp
  then have "[''id'' \<mapsto> JNum NegInf] \<noteq> (Map.empty :: obj)" by metis
  then show ?thesis by (simp add: generate_blank)
qed

subsection \<open>C9: a create on the empty Store\<close>

text \<open>
  C9. A create request with a payload, on the empty Store, does not throw: it returns a
  record, which becomes the only record of the Store, and the id of that record is
  \<open>-Infinity\<close>, which is not a finite number.
\<close>

theorem create_on_empty_store:
  assumes "body req = Some b"
  shows "\<exists>c req'. post_customers [] now req = (Inr c, [c], req') \<and> cid c = NegInf"
  using assms
  by (simp add: post_customers_def generate_def js_add1_def parseFloat_tracked tracked_def
        get_prop_def)

text \<open>
  The theorem at a create request with an empty payload.
\<close>

theorem create_on_empty_store_witness:
  "post_customers [] ''t'' \<lparr>body = Some Map.empty, query = None\<rparr> =
     (Inr (defaults NegInf ''t''), [defaults NegInf ''t''],
      \<lparr>body = Some [''id'' \<mapsto> JNum NegInf], query = None\<rparr>) \<and>
   cid (defaults NegInf ''t'') = NegInf"
proof -
  have b: "body \<lparr>body = Some Map.empty, query = None\<rparr> = Some Map.empty"
    by simp
  have p: "post_customers [] ''t'' \<lparr>body = Some Map.empty, query = None\<rparr> =
     (Inr (defaults NegInf ''t''), [defaults NegInf ''t''],
      \<lparr>body = Some [''id'' \<mapsto> JNum NegInf], query = None\<rparr>)"
    by (simp add: post_customers_def generate_blank)
  show ?thesis using create_on_empty_store [OF b, of "''t''"] p by (simp add: defaults_def)
qed

subsection \<open>C10: the index that the locator returns\<close>

text \<open>
  C10. A result \<open>i\<close> of \<open>validate\<close> other than -1 is a position of the Store, and the
  customer at that position has an id whose text is the id of the source; \<open>splice\<close> at
  \<open>i\<close> replaces, or removes, the customer at that position. The result of \<open>validate\<close>
  is determined whenever every stored id has a text, as every number has that is given by
  its value or by its text. Consequently, whenever \<open>changeOrDelete\<close> returns a record,
  the Store afterwards is the Store before with the customer at the position that
  \<open>validate\<close> returned replaced by that record (update) or removed (delete).
\<close>

theorem validate_index_valid:
  "(\<forall>i. validate st req ty = Some i \<and> i \<noteq> - 1 \<longrightarrow>
        0 \<le> i \<and> i < int (length st) \<and>
        (\<exists>s x. src req ty = Some s \<and> get_prop s ''id'' = JStr x \<and>
                js_toString (cid (st ! nat i)) = Some x) \<and>
        (\<forall>c. splice st i 1 [c] = st[nat i := c]) \<and>
        splice st i 1 [] = take (nat i) st @ drop (Suc (nat i)) st) \<and>
   ((\<forall>f\<in>set st. js_toString (cid f) \<noteq> None) \<longrightarrow> validate st req ty \<noteq> None) \<and>
   (\<forall>c st' req'. changeOrDelete st now1 now2 req update = Some (Inr c, st', req') \<longrightarrow>
        (\<exists>i<length st. validate st req (if update then Body else Query) = Some (int i) \<and>
             st' = (if update then st[i := c] else take i st @ drop (Suc i) st)))"
proof (intro conjI allI impI)
  fix i
  assume a: "validate st req ty = Some i \<and> i \<noteq> - 1"
  then have v: "validate st req ty = Some i" and ne: "i \<noteq> - 1" by simp_all
  from validate_found [OF v ne] obtain s x where
    f: "src req ty = Some s" "get_prop s ''id'' = JStr x"
       "i = int (length (takeWhile (\<lambda>f. js_toString (cid f) \<noteq> Some x) st))"
       "nat i < length st" "js_toString (cid (st ! nat i)) = Some x"
    by blast
  from f(3) show nonneg: "0 \<le> i" by simp
  with f(4) show "i < int (length st)" by linarith
  from f(1,2,5) show "\<exists>s x. src req ty = Some s \<and> get_prop s ''id'' = JStr x \<and>
                js_toString (cid (st ! nat i)) = Some x" by blast
  show "splice st i 1 [] = take (nat i) st @ drop (Suc (nat i)) st"
    by (rule splice_delete [OF nonneg f(4)])
  fix c show "splice st i 1 [c] = st[nat i := c]"
    by (rule splice_replace [OF nonneg f(4)])
next
  assume "\<forall>f\<in>set st. js_toString (cid f) \<noteq> None"
  then show "validate st req ty \<noteq> None" by (rule validate_determined)
next
  fix c st' req'
  assume "changeOrDelete st now1 now2 req update = Some (Inr c, st', req')"
  then show "\<exists>i<length st. validate st req (if update then Body else Query) = Some (int i) \<and>
             st' = (if update then st[i := c] else take i st @ drop (Suc i) st)"
    by (rule changeOrDelete_Inr)
qed

text \<open>
  The theorem on the Store that holds one customer, of id 1, looked up by a query and
  then deleted.
\<close>

theorem validate_index_valid_witness:
  "validate [defaults (Fin 1) ''t0'']
     \<lparr>body = Some Map.empty, query = Some [''id'' \<mapsto> JStr ''1'']\<rparr> Query = Some 0 \<and>
   (0::int) < int (length [defaults (Fin 1) ''t0'']) \<and>
   js_toString (cid ([defaults (Fin 1) ''t0''] ! nat 0)) = Some ''1'' \<and>
   splice [defaults (Fin 1) ''t0''] 0 1 [defaults (Fin 1) ''t1''] = [defaults (Fin 1) ''t1''] \<and>
   splice [defaults (Fin 1) ''t0''] 0 1 [] = [] \<and>
   changeOrDelete [defaults (Fin 1) ''t0''] ''t1'' ''t2''
     \<lparr>body = Some Map.empty, query = Some [''id'' \<mapsto> JStr ''1'']\<rparr> False =
   Some (Inr (defaults (Fin 1) ''t2''), [],
         \<lparr>body = Some [''id'' \<mapsto> JStr ''1''], query = Some [''id'' \<mapsto> JStr ''1'']\<rparr>) \<and>
   (\<exists>i<length [defaults (Fin 1) ''t0''].
      validate [defaults (Fin 1) ''t0'']
        \<lparr>body = Some Map.empty, query = Some [''id'' \<mapsto> JStr ''1'']\<rparr> Query = Some (int i) \<and>
      [] = take i [defaults (Fin 1) ''t0''] @ drop (Suc i) [defaults (Fin 1) ''t0''])"
proof -
  let ?st = "[defaults (Fin 1) ''t0'']"
  let ?rq = "\<lparr>body = Some Map.empty, query = Some [''id'' \<mapsto> JStr ''1'']\<rparr>"
  let ?rq' = "\<lparr>body = Some [''id'' \<mapsto> JStr ''1''], query = Some [''id'' \<mapsto> JStr ''1'']\<rparr>"
  have v: "validate ?st ?rq Query = Some 0"
    using validate_example(1) [of "defaults (Fin 1) ''t0''"] by (simp add: defaults_def)
  have g: "generate ?st ''t1'' ?rq True = (Inr (defaults (Fin 1) ''t1''), ?st, ?rq')"
    by (simp add: generate_def Let_def get_prop_def js_or_def defaults_def parseFloat_text_1)
  have c: "changeOrDelete ?st ''t1'' ''t2'' ?rq False =
             Some (Inr (defaults (Fin 1) ''t2''), [], ?rq')"
    by (simp add: changeOrDelete_def Let_def v g splice_def) (simp add: defaults_def)
  note V = validate_index_valid [of ?st ?rq Query "''t1''" "''t2''" False]
  have n: "validate ?st ?rq Query = Some 0 \<and> (0::int) \<noteq> - 1" using v by simp
  from V [THEN conjunct1, rule_format, OF n]
  have 1: "(0::int) < int (length ?st)" "js_toString (cid (?st ! nat 0)) = Some ''1''"
    "splice ?st 0 1 [defaults (Fin 1) ''t1''] = [defaults (Fin 1) ''t1'']"
    "splice ?st 0 1 [] = []"
    by (auto simp: get_prop_def src_def)
  from V [THEN conjunct2, THEN conjunct2, rule_format, OF c]
  have 2: "\<exists>i<length ?st. validate ?st ?rq Query = Some (int i) \<and>
             [] = take i ?st @ drop (Suc i) ?st"
    by simp
  from v 1 c 2 show ?thesis by (intro conjI)
qed

end
